theory Spec2Isabelle
  imports Main
begin

section \<open>Data model of the NodeRollout status merge\<close>

text \<open>
  A Go slice that may be \<^verbatim>\<open>nil\<close> is a \<open>list option\<close> (\<open>None\<close> is \<^verbatim>\<open>nil\<close>,
  \<open>Some []\<close> is an assigned empty slice: \<^verbatim>\<open>reflect.DeepEqual\<close> and the
  \<^verbatim>\<open>!= nil\<close> tests tell them apart), a pointer that may be \<^verbatim>\<open>nil\<close> is an
  \<open>option\<close>, a Go \<^verbatim>\<open>error\<close> is the text its \<^verbatim>\<open>Error()\<close> method returns.
  The records take the representation \<open>'s\<close> of a slice of strings as a parameter:
  \<open>names\<close>, the list of its elements, where only contents matter, and a slice header
  into a heap of arrays (section \<open>Slices in memory\<close>) where sharing of arrays matters.
\<close>

type_synonym Time = nat
type_synonym error = string
type_synonym names = "string list"
type_synonym ConditionStatus = string
type_synonym NodeRolloutPhase = string
type_synonym NodeRolloutConditionReason = string

definition ConditionTrue :: ConditionStatus where
  "ConditionTrue = ''True''"

definition ConditionFalse :: ConditionStatus where
  "ConditionFalse = ''False''"

text \<open>
  Modelled from the spec: the condition type and its constants
  \<^verbatim>\<open>ReplacementsCreatedType\<close> and \<^verbatim>\<open>ReplacementsInProgressType\<close> are declared in the API
  package \<^verbatim>\<open>pkg/apis/navarchos/v1alpha1\<close>, which is not among the sources. The two
  constants are two different values of the type (the \<^verbatim>\<open>Created\<close> and \<^verbatim>\<open>InProgress\<close>
  condition types of section 4.1 of the spec); every other value of the string type is
  \<open>OtherConditionType\<close>.
\<close>

datatype NodeRolloutConditionType =
    ReplacementsCreatedType
  | ReplacementsInProgressType
  | OtherConditionType string

text \<open>
  Modelled from the spec: \<^verbatim>\<open>NodeRolloutCondition\<close> and \<^verbatim>\<open>NodeRolloutStatus\<close> are declared
  in the API package, which is not among the sources. The fields are those of section 3
  of the spec, under the names and with the types that \<^verbatim>\<open>status.go\<close> and the tests use.
\<close>

record NodeRolloutCondition =
  Type :: NodeRolloutConditionType
  Status :: ConditionStatus
  LastUpdateTime :: Time
  LastTransitionTime :: Time
  Reason :: NodeRolloutConditionReason
  Message :: string

record 's NodeRolloutStatus =
  Phase :: NodeRolloutPhase
  ReplacementsCreated :: "'s option"
  ReplacementsCreatedCount :: int
  ReplacementsCompleted :: "'s option"
  ReplacementsCompletedCount :: int
  ReplacementsFailed :: "'s option"
  ReplacementsFailedCount :: int
  CompletionTimestamp :: "Time option"
  Conditions :: "NodeRolloutCondition list option"

text \<open>
  Modelled from the spec: the declaration of \<^verbatim>\<open>Result\<close> that \<^verbatim>\<open>status.go\<close> compiles
  against is not among the sources. The one in \<^verbatim>\<open>part_001\<close> belongs to another revision:
  it has no \<^verbatim>\<open>CompletionTimestamp\<close> and a single error and reason, named
  \<^verbatim>\<open>ReplacementsCompletedError\<close> and \<^verbatim>\<open>ReplacementsCompletedReason\<close>, which
  \<^verbatim>\<open>status.go\<close> does not read. The record holds the fields that \<^verbatim>\<open>status.go\<close> reads,
  with the types its uses fix.
\<close>

record 's Result =
  resultPhase :: "NodeRolloutPhase option"
  resultReplacementsCreated :: "'s option"
  resultReplacementsCreatedError :: "error option"
  resultReplacementsCreatedReason :: NodeRolloutConditionReason
  resultReplacementsCompleted :: "'s option"
  resultReplacementsInProgressError :: "error option"
  resultReplacementsInProgressReason :: NodeRolloutConditionReason
  resultCompletionTimestamp :: "Time option"

text \<open>
  Modelled from the spec: a \<^verbatim>\<open>NodeRollout\<close> object (declared in the API package);
  its metadata and its spec are opaque to the merge.
\<close>

record 's NodeRollout =
  ObjectMeta :: string
  Spec :: string
  InstanceStatus :: "'s NodeRolloutStatus"

text \<open>
  The client of the cluster store (\<^verbatim>\<open>client.Client\<close> of controller-runtime, an external
  interface). \<open>reject\<close> is the answer of the API server to an
  update request (\<open>None\<close>: accepted), \<open>calls\<close> lists the update requests issued so
  far, oldest first, and \<open>objects\<close> holds the object last accepted under each name.
\<close>

record Client =
  reject :: "names NodeRollout \<Rightarrow> error option"
  calls :: "names NodeRollout list"
  objects :: "string \<Rightarrow> names NodeRollout option"

definition Update :: "Client \<Rightarrow> names NodeRollout \<Rightarrow> error option \<times> Client" where
  "Update c obj =
     (case reject c obj of
        Some err \<Rightarrow> (Some err, c\<lparr>calls := calls c @ [obj]\<rparr>)
      | None \<Rightarrow> (None, c\<lparr>calls := calls c @ [obj],
                            objects := (objects c)(ObjectMeta obj \<mapsto> obj)\<rparr>))"

text \<open>
  \<^verbatim>\<open>metav1.Now()\<close> reads the wall clock. A clock is the sequence of its readings;
  the functions that read it take the number of readings made so far and return the
  number after them.
\<close>

type_synonym Clock = "nat \<Rightarrow> Time"

section \<open>status.go\<close>

definition setPhase :: "'s NodeRolloutStatus \<Rightarrow> 's Result \<Rightarrow> 's NodeRolloutStatus" where
  "setPhase status result =
     (case resultPhase result of
        Some p \<Rightarrow> status\<lparr>Phase := p\<rparr>
      | None \<Rightarrow> status)"

definition setReplacementsCreated :: "names NodeRolloutStatus \<Rightarrow> names Result \<Rightarrow> error + names NodeRolloutStatus" where
  "setReplacementsCreated status result =
     (if ReplacementsCreated status \<noteq> None \<and> resultReplacementsCreated result \<noteq> None
      then Inl ''cannot update ReplacementsCreated, field is immutable once set''
      else if ReplacementsCreated status = None \<and> resultReplacementsCreated result \<noteq> None
      then Inr (status\<lparr>ReplacementsCreated := resultReplacementsCreated result,
                       ReplacementsCreatedCount := int (length (the (resultReplacementsCreated result)))\<rparr>)
      else Inr status)"

text \<open>
  \<^verbatim>\<open>appendIfMissingElement\<close> and \<^verbatim>\<open>appendIfMissingStr\<close> on the contents of the slices:
  the loop looks for \<open>i\<close>; \<open>found\<close> is its early return. The code appends in place
  where the first slice has spare capacity and ranges over the array of the caller, so
  these functions give what the code computes only when the slices involved do not share
  an array. The functions of section \<open>Slices in memory\<close> follow the arrays;
  \<open>UpdateStatusH_refines\<close> states when the two agree, and
  \<open>aliased_result_loses_a_name\<close> is an input on which they differ.
\<close>

fun found :: "string list \<Rightarrow> string \<Rightarrow> bool" where
  "found [] i = False"
| "found (ele # rest) i = (if ele = i then True else found rest i)"

definition appendIfMissingElement :: "string list \<Rightarrow> string \<Rightarrow> string list" where
  "appendIfMissingElement slice i = (if found slice i then slice else slice @ [i])"

fun appendIfMissingStr :: "string list \<Rightarrow> string list \<Rightarrow> string list" where
  "appendIfMissingStr merged [] = merged"
| "appendIfMissingStr merged (ele # str) = appendIfMissingStr (appendIfMissingElement merged ele) str"

definition setReplacementsCompleted :: "names NodeRolloutStatus \<Rightarrow> names Result \<Rightarrow> names NodeRolloutStatus" where
  "setReplacementsCompleted status result =
     (let status1 =
        (case (ReplacementsCompleted status, resultReplacementsCompleted result) of
           (Some old, Some new) \<Rightarrow>
             (let merged = appendIfMissingStr old new
              in status\<lparr>ReplacementsCompleted := Some merged,
                        ReplacementsCompletedCount := int (length merged)\<rparr>)
         | _ \<Rightarrow> status)
      in case (ReplacementsCompleted status1, resultReplacementsCompleted result) of
           (None, Some new) \<Rightarrow>
             status1\<lparr>ReplacementsCompleted := Some new,
                     ReplacementsCompletedCount := int (length new)\<rparr>
         | _ \<Rightarrow> status1)"

definition setCompletionTimestamp :: "'s NodeRolloutStatus \<Rightarrow> 's Result \<Rightarrow> error + 's NodeRolloutStatus" where
  "setCompletionTimestamp status result =
     (if CompletionTimestamp status \<noteq> None \<and> resultCompletionTimestamp result \<noteq> None
      then Inl ''cannot update CompletionTimestamp, field is immutable once set''
      else if CompletionTimestamp status = None \<and> resultCompletionTimestamp result \<noteq> None
      then Inr (status\<lparr>CompletionTimestamp := resultCompletionTimestamp result\<rparr>)
      else Inr status)"

definition newNodeRolloutCondition ::
  "Clock \<Rightarrow> nat \<Rightarrow> NodeRolloutConditionType \<Rightarrow> ConditionStatus \<Rightarrow> NodeRolloutConditionReason
     \<Rightarrow> string \<Rightarrow> NodeRolloutCondition \<times> nat" where
  "newNodeRolloutCondition clk n condType status reason message =
     (\<lparr>Type = condType, Status = status,
       LastUpdateTime = clk n, LastTransitionTime = clk (Suc n),
       Reason = reason, Message = message\<rparr>, Suc (Suc n))"

text \<open>Ranging over a \<^verbatim>\<open>nil\<close> slice visits nothing.\<close>

definition items :: "'a list option \<Rightarrow> 'a list" where
  "items s = (case s of None \<Rightarrow> [] | Some xs \<Rightarrow> xs)"

fun firstOfType :: "NodeRolloutCondition list \<Rightarrow> NodeRolloutConditionType \<Rightarrow> NodeRolloutCondition option" where
  "firstOfType [] condType = None"
| "firstOfType (c # cs) condType = (if Type c = condType then Some c else firstOfType cs condType)"

definition getNodeRolloutCondition ::
  "'s NodeRolloutStatus \<Rightarrow> NodeRolloutConditionType \<Rightarrow> NodeRolloutCondition option" where
  "getNodeRolloutCondition status condType = firstOfType (items (Conditions status)) condType"

text \<open>
  \<^verbatim>\<open>filterOutCondition\<close> starts from a \<^verbatim>\<open>nil\<close> slice and appends what it keeps: the
  result is \<^verbatim>\<open>nil\<close> when nothing is kept.
\<close>

fun filterOutLoop ::
  "NodeRolloutCondition list option \<Rightarrow> NodeRolloutCondition list \<Rightarrow> NodeRolloutConditionType
     \<Rightarrow> NodeRolloutCondition list option" where
  "filterOutLoop newConditions [] condType = newConditions"
| "filterOutLoop newConditions (c # cs) condType =
     (if Type c = condType then filterOutLoop newConditions cs condType
      else filterOutLoop (Some (items newConditions @ [c])) cs condType)"

definition filterOutCondition ::
  "NodeRolloutCondition list option \<Rightarrow> NodeRolloutConditionType \<Rightarrow> NodeRolloutCondition list option" where
  "filterOutCondition conditions condType = filterOutLoop None (items conditions) condType"

definition setNodeRolloutCondition :: "'s NodeRolloutStatus \<Rightarrow> NodeRolloutCondition \<Rightarrow> 's NodeRolloutStatus" where
  "setNodeRolloutCondition status condition =
     (let currentCond = getNodeRolloutCondition status (Type condition) in
      if currentCond \<noteq> None \<and> Status (the currentCond) = Status condition
           \<and> Reason (the currentCond) = Reason condition
      then status
      else
        let condition1 =
              (if currentCond \<noteq> None \<and> Status (the currentCond) = Status condition
               then condition\<lparr>LastTransitionTime := LastTransitionTime (the currentCond)\<rparr>
               else condition);
            newConditions = filterOutCondition (Conditions status) (Type condition1)
        in status\<lparr>Conditions := Some (items newConditions @ [condition1])\<rparr>)"

definition setInProgressCondition ::
  "Clock \<Rightarrow> nat \<Rightarrow> 's NodeRolloutStatus \<Rightarrow> 's Result \<Rightarrow> error + ('s NodeRolloutStatus \<times> nat)" where
  "setInProgressCondition clk n status result =
     (if resultReplacementsInProgressError result \<noteq> None \<and> resultReplacementsInProgressReason result = ''''
      then Inl ''if ReplacementsInProgressError is set, ReplacementsInProgressReason must also be set''
      else if resultReplacementsInProgressReason result \<noteq> ''''
      then
        (let (condition, n1) = newNodeRolloutCondition clk n ReplacementsInProgressType ConditionTrue
                                 (resultReplacementsInProgressReason result) '''';
             condition1 = (case resultReplacementsInProgressError result of
                             Some err \<Rightarrow> condition\<lparr>Status := ConditionFalse, Message := err\<rparr>
                           | None \<Rightarrow> condition);
             condition2 = (if resultReplacementsInProgressReason result = ''ReplacementsCompleted''
                           then condition1\<lparr>Status := ConditionFalse\<rparr>
                           else condition1)
         in Inr (setNodeRolloutCondition status condition2, n1))
      else Inr (status, n))"

definition setCreatedCondition ::
  "Clock \<Rightarrow> nat \<Rightarrow> 's NodeRolloutStatus \<Rightarrow> 's Result \<Rightarrow> error + ('s NodeRolloutStatus \<times> nat)" where
  "setCreatedCondition clk n status result =
     (if resultReplacementsCreatedError result \<noteq> None \<and> resultReplacementsCreatedReason result = ''''
      then Inl ''if ReplacementsCreatedError is set, ReplacementsCreatedReason must also be set''
      else if resultReplacementsCreatedReason result \<noteq> ''''
      then
        (let (condition, n1) = newNodeRolloutCondition clk n ReplacementsCreatedType ConditionTrue
                                 (resultReplacementsCreatedReason result) '''';
             condition1 = (case resultReplacementsCreatedError result of
                             Some err \<Rightarrow> condition\<lparr>Status := ConditionFalse, Message := err\<rparr>
                           | None \<Rightarrow> condition)
         in Inr (setNodeRolloutCondition status condition1, n1))
      else Inr (status, n))"

text \<open>
  \<^verbatim>\<open>UpdateStatus\<close>. The comparison of line 44 is \<^verbatim>\<open>reflect.DeepEqual\<close> on two
  status values, which is equality of the records above. The result is the error
  returned (\<open>None\<close> for \<^verbatim>\<open>nil\<close>) and the client after the call.
\<close>

definition UpdateStatus :: "Clock \<Rightarrow> Client \<Rightarrow> names NodeRollout \<Rightarrow> names Result \<Rightarrow> error option \<times> Client" where
  "UpdateStatus clk c instance result =
     (let status0 = setPhase (InstanceStatus instance) result in
      case setReplacementsCreated status0 result of
        Inl err \<Rightarrow> (Some err, c)
      | Inr status1 \<Rightarrow>
     (let status2 = setReplacementsCompleted status1 result in
      case setCompletionTimestamp status2 result of
        Inl err \<Rightarrow> (Some err, c)
      | Inr status3 \<Rightarrow>
     (case setCreatedCondition clk 0 status3 result of
        Inl err \<Rightarrow> (Some err, c)
      | Inr (status4, n4) \<Rightarrow>
     (case setInProgressCondition clk n4 status4 result of
        Inl err \<Rightarrow> (Some err, c)
      | Inr (status5, n5) \<Rightarrow>
        if status5 \<noteq> InstanceStatus instance
        then
          (let copy = instance\<lparr>InstanceStatus := status5\<rparr> in
           case Update c copy of
             (Some err, c1) \<Rightarrow> (Some (''error updating status: '' @ err), c1)
           | (None, c1) \<Rightarrow> (None, c1))
        else (None, c)))))"

text \<open>
  The value of the local \<^verbatim>\<open>status\<close> when \<^verbatim>\<open>UpdateStatus\<close> reaches the comparison of
  line 44 (\<open>Inr\<close>), or the error with which it has returned before (\<open>Inl\<close>).
\<close>

definition mergedStatus :: "Clock \<Rightarrow> names NodeRolloutStatus \<Rightarrow> names Result \<Rightarrow> error + names NodeRolloutStatus" where
  "mergedStatus clk status result =
     (case setReplacementsCreated (setPhase status result) result of
        Inl err \<Rightarrow> Inl err
      | Inr status1 \<Rightarrow>
     (case setCompletionTimestamp (setReplacementsCompleted status1 result) result of
        Inl err \<Rightarrow> Inl err
      | Inr status3 \<Rightarrow>
     (case setCreatedCondition clk 0 status3 result of
        Inl err \<Rightarrow> Inl err
      | Inr (status4, n4) \<Rightarrow>
     (case setInProgressCondition clk n4 status4 result of
        Inl err \<Rightarrow> Inl err
      | Inr (status5, n5) \<Rightarrow> Inr status5))))"

section \<open>Slices in memory\<close>

text \<open>
  \<^verbatim>\<open>status := instance.Status\<close> copies the struct, not the arrays behind its slices, and
  \<^verbatim>\<open>append\<close> writes into the array of its argument when that has spare capacity. Where
  this matters, a string slice is its header (array, offset, length, capacity) and the
  arrays live in a heap. \<open>growslice\<close> is the capacity the runtime chooses when
  \<^verbatim>\<open>append\<close> has to allocate; a new array is zeroed beyond what is copied into it.
\<close>

record Slice =
  sliceBase :: nat
  sliceOff :: nat
  sliceLen :: nat
  sliceCap :: nat

record Heap =
  heapArrays :: "nat \<Rightarrow> string list"
  heapNext :: nat
  growslice :: "nat \<Rightarrow> nat"

text \<open>What a slice shows: \<open>sliceLen\<close> elements of its array from \<open>sliceOff\<close> on.\<close>

definition view :: "Heap \<Rightarrow> Slice \<Rightarrow> names" where
  "view h s = take (sliceLen s) (drop (sliceOff s) (heapArrays h (sliceBase s)))"

definition nilSlice :: Slice where
  "nilSlice = \<lparr>sliceBase = 0, sliceOff = 0, sliceLen = 0, sliceCap = 0\<rparr>"

definition header :: "Slice option \<Rightarrow> Slice" where
  "header s = (case s of None \<Rightarrow> nilSlice | Some sl \<Rightarrow> sl)"

text \<open>The built-in \<^verbatim>\<open>append(slice, x)\<close>.\<close>

definition goAppend :: "Heap \<Rightarrow> Slice option \<Rightarrow> string \<Rightarrow> Heap \<times> Slice option" where
  "goAppend h slice x =
     (let s = header slice in
      if sliceLen s < sliceCap s
      then (h\<lparr>heapArrays := (heapArrays h)
                 (sliceBase s := (heapArrays h (sliceBase s))[sliceOff s + sliceLen s := x])\<rparr>,
            Some (s\<lparr>sliceLen := Suc (sliceLen s)\<rparr>))
      else
        (let n = max (Suc (sliceLen s)) (growslice h (sliceCap s)) in
         (h\<lparr>heapArrays := (heapArrays h)
                 (heapNext h := view h s @ [x] @ replicate (n - Suc (sliceLen s)) ''''),
            heapNext := Suc (heapNext h)\<rparr>,
          Some \<lparr>sliceBase = heapNext h, sliceOff = 0, sliceLen = Suc (sliceLen s), sliceCap = n\<rparr>)))"

text \<open>
  \<^verbatim>\<open>appendIfMissingElement\<close> and \<^verbatim>\<open>appendIfMissingStr\<close> on the heap. The variadic
  argument is the slice of the caller, not a copy: \<open>rangeStr\<close> reads its element \<open>i\<close>
  from the heap as it is at iteration \<open>i\<close>; the number of iterations is fixed on entry.
  A Go slice always lies within its array (\<open>wfSlice\<close> below), so the reads and writes
  of well-formed slices are in range.
\<close>

definition appendIfMissingElementH :: "Heap \<Rightarrow> Slice option \<Rightarrow> string \<Rightarrow> Heap \<times> Slice option" where
  "appendIfMissingElementH h slice i =
     (if found (view h (header slice)) i then (h, slice) else goAppend h slice i)"

fun rangeStr :: "Heap \<Rightarrow> Slice option \<Rightarrow> Slice \<Rightarrow> nat \<Rightarrow> nat \<Rightarrow> Heap \<times> Slice option" where
  "rangeStr h merged str i 0 = (h, merged)"
| "rangeStr h merged str i (Suc k) =
     (let ele = heapArrays h (sliceBase str) ! (sliceOff str + i);
          (h1, merged1) = appendIfMissingElementH h merged ele
      in rangeStr h1 merged1 str (Suc i) k)"

definition appendIfMissingStrH :: "Heap \<Rightarrow> Slice option \<Rightarrow> Slice option \<Rightarrow> Heap \<times> Slice option" where
  "appendIfMissingStrH h slice str = rangeStr h slice (header str) 0 (sliceLen (header str))"

definition setReplacementsCreatedH ::
  "Slice NodeRolloutStatus \<Rightarrow> Slice Result \<Rightarrow> error + Slice NodeRolloutStatus" where
  "setReplacementsCreatedH status result =
     (if ReplacementsCreated status \<noteq> None \<and> resultReplacementsCreated result \<noteq> None
      then Inl ''cannot update ReplacementsCreated, field is immutable once set''
      else if ReplacementsCreated status = None \<and> resultReplacementsCreated result \<noteq> None
      then Inr (status\<lparr>ReplacementsCreated := resultReplacementsCreated result,
                       ReplacementsCreatedCount := int (sliceLen (the (resultReplacementsCreated result)))\<rparr>)
      else Inr status)"

definition setReplacementsCompletedH ::
  "Heap \<Rightarrow> Slice NodeRolloutStatus \<Rightarrow> Slice Result \<Rightarrow> Heap \<times> Slice NodeRolloutStatus" where
  "setReplacementsCompletedH h status result =
     (let (h1, status1) =
        (if ReplacementsCompleted status \<noteq> None \<and> resultReplacementsCompleted result \<noteq> None
         then
           (let (h', merged) = appendIfMissingStrH h (ReplacementsCompleted status)
                                 (resultReplacementsCompleted result)
            in (h', status\<lparr>ReplacementsCompleted := merged,
                            ReplacementsCompletedCount := int (sliceLen (header merged))\<rparr>))
         else (h, status))
      in if ReplacementsCompleted status1 = None \<and> resultReplacementsCompleted result \<noteq> None
         then (h1, status1\<lparr>ReplacementsCompleted := resultReplacementsCompleted result,
                    ReplacementsCompletedCount := int (sliceLen (the (resultReplacementsCompleted result)))\<rparr>)
         else (h1, status1))"

text \<open>The status, instance and Result that slice headers show in a heap.\<close>

definition viewStatus :: "Heap \<Rightarrow> Slice NodeRolloutStatus \<Rightarrow> names NodeRolloutStatus" where
  "viewStatus h status =
     \<lparr>Phase = Phase status,
      ReplacementsCreated = map_option (view h) (ReplacementsCreated status),
      ReplacementsCreatedCount = ReplacementsCreatedCount status,
      ReplacementsCompleted = map_option (view h) (ReplacementsCompleted status),
      ReplacementsCompletedCount = ReplacementsCompletedCount status,
      ReplacementsFailed = map_option (view h) (ReplacementsFailed status),
      ReplacementsFailedCount = ReplacementsFailedCount status,
      CompletionTimestamp = CompletionTimestamp status,
      Conditions = Conditions status\<rparr>"

definition viewInstance :: "Heap \<Rightarrow> Slice NodeRollout \<Rightarrow> names NodeRollout" where
  "viewInstance h instance =
     \<lparr>ObjectMeta = ObjectMeta instance, Spec = Spec instance,
      InstanceStatus = viewStatus h (InstanceStatus instance)\<rparr>"

definition viewResult :: "Heap \<Rightarrow> Slice Result \<Rightarrow> names Result" where
  "viewResult h result =
     \<lparr>resultPhase = resultPhase result,
      resultReplacementsCreated = map_option (view h) (resultReplacementsCreated result),
      resultReplacementsCreatedError = resultReplacementsCreatedError result,
      resultReplacementsCreatedReason = resultReplacementsCreatedReason result,
      resultReplacementsCompleted = map_option (view h) (resultReplacementsCompleted result),
      resultReplacementsInProgressError = resultReplacementsInProgressError result,
      resultReplacementsInProgressReason = resultReplacementsInProgressReason result,
      resultCompletionTimestamp = resultCompletionTimestamp result\<rparr>"

text \<open>
  \<^verbatim>\<open>UpdateStatus\<close> on the heap. The steps that do not touch a string slice are the
  functions above. \<^verbatim>\<open>reflect.DeepEqual\<close> compares what the slices show; the update request
  carries what the copy shows. The arrays that \<^verbatim>\<open>DeepCopy\<close> allocates are unreachable
  once \<^verbatim>\<open>copy.Status\<close> is assigned and are left out; the client is taken to read the
  object it is given and to write nothing the instance can reach.
\<close>

definition UpdateStatusH ::
  "Clock \<Rightarrow> Client \<Rightarrow> Heap \<Rightarrow> Slice NodeRollout \<Rightarrow> Slice Result
     \<Rightarrow> error option \<times> Client \<times> Heap" where
  "UpdateStatusH clk c h instance result =
     (let status0 = setPhase (InstanceStatus instance) result in
      case setReplacementsCreatedH status0 result of
        Inl err \<Rightarrow> (Some err, c, h)
      | Inr status1 \<Rightarrow>
     (let (h2, status2) = setReplacementsCompletedH h status1 result in
      case setCompletionTimestamp status2 result of
        Inl err \<Rightarrow> (Some err, c, h2)
      | Inr status3 \<Rightarrow>
     (case setCreatedCondition clk 0 status3 result of
        Inl err \<Rightarrow> (Some err, c, h2)
      | Inr (status4, n4) \<Rightarrow>
     (case setInProgressCondition clk n4 status4 result of
        Inl err \<Rightarrow> (Some err, c, h2)
      | Inr (status5, n5) \<Rightarrow>
        if viewStatus h2 status5 \<noteq> viewStatus h2 (InstanceStatus instance)
        then
          (let copy = instance\<lparr>InstanceStatus := status5\<rparr> in
           case Update c (viewInstance h2 copy) of
             (Some err, c1) \<Rightarrow> (Some (''error updating status: '' @ err), c1, h2)
           | (None, c1) \<Rightarrow> (None, c1, h2))
        else (None, c, h2)))))"

text \<open>
  A slice is well-formed in a heap when its array is allocated and holds its capacity.
  \<open>apart old t\<close>: \<open>t\<close> shows no cell of the spare capacity of \<open>old\<close>, the cells
  between the length and the capacity of \<open>old\<close>. A status is separated when its string
  slices are well-formed and none of them shows spare capacity of its
  \<^verbatim>\<open>ReplacementsCompleted\<close> slice; this holds whenever every slice has an array of its own,
  as in an object decoded from the store or deep-copied.
\<close>

definition wfSlice :: "Heap \<Rightarrow> Slice \<Rightarrow> bool" where
  "wfSlice h s \<longleftrightarrow>
     sliceBase s < heapNext h \<and> sliceLen s \<le> sliceCap s
     \<and> sliceOff s + sliceCap s \<le> length (heapArrays h (sliceBase s))"

definition apart :: "Slice \<Rightarrow> Slice \<Rightarrow> bool" where
  "apart old t \<longleftrightarrow>
     sliceBase t \<noteq> sliceBase old \<or> sliceLen t = 0
     \<or> sliceOff t + sliceLen t \<le> sliceOff old + sliceLen old
     \<or> sliceOff old + sliceCap old \<le> sliceOff t"

fun sliceOf :: "Slice option \<Rightarrow> Slice list" where
  "sliceOf None = []"
| "sliceOf (Some s) = [s]"

definition statusSlices :: "Slice NodeRolloutStatus \<Rightarrow> Slice list" where
  "statusSlices status =
     sliceOf (ReplacementsCreated status) @ sliceOf (ReplacementsCompleted status)
       @ sliceOf (ReplacementsFailed status)"

definition separated :: "Heap \<Rightarrow> Slice NodeRolloutStatus \<Rightarrow> bool" where
  "separated h status \<longleftrightarrow>
     (\<forall>t \<in> set (statusSlices status).
        wfSlice h t \<and> (case ReplacementsCompleted status of None \<Rightarrow> True | Some old \<Rightarrow> apart old t))"

text \<open>
  \<open>keeps h0 old h\<close>: \<open>h\<close> has the arrays of \<open>h0\<close> with the same contents, except in
  the spare capacity of \<open>old\<close>. \<open>grown h0 old m\<close>: the slice \<open>m\<close> is \<open>old\<close> made
  longer within its capacity, or lies in an array allocated after \<open>h0\<close>.
\<close>

definition keeps :: "Heap \<Rightarrow> Slice \<Rightarrow> Heap \<Rightarrow> bool" where
  "keeps h0 old h \<longleftrightarrow>
     heapNext h0 \<le> heapNext h
     \<and> (\<forall>b < heapNext h0.
          length (heapArrays h b) = length (heapArrays h0 b)
          \<and> (\<forall>i. \<not> (b = sliceBase old \<and> sliceOff old + sliceLen old \<le> i
                      \<and> i < sliceOff old + sliceCap old)
                \<longrightarrow> heapArrays h b ! i = heapArrays h0 b ! i))"

definition grown :: "Heap \<Rightarrow> Slice \<Rightarrow> Slice option \<Rightarrow> bool" where
  "grown h0 old m \<longleftrightarrow>
     (case m of
        None \<Rightarrow> True
      | Some s \<Rightarrow>
          (sliceBase s = sliceBase old \<and> sliceOff s = sliceOff old \<and> sliceCap s = sliceCap old
             \<and> sliceLen old \<le> sliceLen s)
          \<or> heapNext h0 \<le> sliceBase s)"

text \<open>
  For the comparison of the heap with the functions on lists: a header that is
  \<^verbatim>\<open>nil\<close> or well-formed, and a Result whose slices are well-formed and show no spare
  capacity of the \<^verbatim>\<open>ReplacementsCompleted\<close> slice of a status.
\<close>

definition wfHeader :: "Heap \<Rightarrow> Slice option \<Rightarrow> bool" where
  "wfHeader h m = (case m of None \<Rightarrow> True | Some s \<Rightarrow> wfSlice h s)"

definition resultSlices :: "Slice Result \<Rightarrow> Slice list" where
  "resultSlices result =
     sliceOf (resultReplacementsCreated result) @ sliceOf (resultReplacementsCompleted result)"

definition resultSeparated :: "Heap \<Rightarrow> Slice NodeRolloutStatus \<Rightarrow> Slice Result \<Rightarrow> bool" where
  "resultSeparated h status result \<longleftrightarrow>
     (\<forall>t \<in> set (resultSlices result).
        wfSlice h t \<and> (case ReplacementsCompleted status of None \<Rightarrow> True | Some old \<Rightarrow> apart old t))"

section \<open>The NodeReplacement handler\<close>

text \<open>
  The handler's functions are not among the sources; only their tests are
  (\<^verbatim>\<open>part_002\<close>). A NodeReplacement is reduced to the fields the admission gate reads.
\<close>

type_synonym NodeReplacementPhase = string

definition ReplacementPhaseInProgress :: NodeReplacementPhase where
  "ReplacementPhaseInProgress = ''InProgress''"

record NodeReplacement =
  ReplacementName :: string
  ReplacementPriority :: int
  ReplacementPhase :: NodeReplacementPhase

text \<open>
  Modelled from the spec: \<^verbatim>\<open>shouldProcess\<close> is not among the sources. Following section 4.2
  of the spec, the candidate is compared with every other replacement of the list (those
  with another name): one in phase InProgress blocks it; otherwise one of strictly greater
  priority blocks it; otherwise it proceeds with the empty reason. The spec leaves open
  which blocker is named when there are several: the first of the list is.
\<close>

definition shouldProcess :: "NodeReplacement \<Rightarrow> NodeReplacement list \<Rightarrow> bool \<times> string" where
  "shouldProcess candidate replacements =
     (let others = filter (\<lambda>nr. ReplacementName nr \<noteq> ReplacementName candidate) replacements in
      case find (\<lambda>nr. ReplacementPhase nr = ReplacementPhaseInProgress) others of
        Some nr \<Rightarrow> (False, ''NodeReplacement \"'' @ ReplacementName nr @ ''\" is already in-progress'')
      | None \<Rightarrow>
          (case find (\<lambda>nr. ReplacementPriority candidate < ReplacementPriority nr) others of
             Some nr \<Rightarrow> (False, ''NodeReplacement \"'' @ ReplacementName nr @ ''\" has a higher priority'')
           | None \<Rightarrow> (True, '''')))"

text \<open>A pod, reduced to its name, the node it is bound to and its owner references.\<close>

record OwnerReference =
  OwnerKind :: string
  OwnerName :: string

record Pod =
  PodName :: string
  PodNodeName :: string
  OwnerReferences :: "OwnerReference list"

record PodReason =
  PodReasonName :: string
  PodReasonReason :: string

definition ownedByDaemonSet :: "Pod \<Rightarrow> bool" where
  "ownedByDaemonSet pod = list_ex (\<lambda>ref. OwnerKind ref = ''DaemonSet'') (OwnerReferences pod)"

text \<open>
  Modelled from the spec: \<^verbatim>\<open>processPods\<close> is not among the sources, only its test is
  (\<^verbatim>\<open>part_002\<close>, lines 335 to 371). Following section 4.3 of the spec
  (\<^verbatim>\<open>ClassifyPods\<close>), the pods bound to the node are listed; a pod owned by a DaemonSet
  is put in the ignored list with the reason \<^verbatim>\<open>pod owned by a DaemonSet\<close>; every other
  pod is put in the evictable list, \<^verbatim>\<open>nodePods\<close>. The test expects \<^verbatim>\<open>pod-2\<close>, owned by
  a DaemonSet, among \<^verbatim>\<open>nodePods\<close> as well; the sources mix revisions, and the words of
  the spec are followed here. The first argument is the list of pods of the cluster as
  the store returns it; a failing list request is not modelled.
\<close>

definition processPods :: "Pod list \<Rightarrow> string \<Rightarrow> string list \<times> PodReason list" where
  "processPods pods nodeName =
     (let bound = filter (\<lambda>pod. PodNodeName pod = nodeName) pods in
      (map PodName (filter (\<lambda>pod. \<not> ownedByDaemonSet pod) bound),
       map (\<lambda>pod. \<lparr>PodReasonName = PodName pod, PodReasonReason = ''pod owned by a DaemonSet''\<rparr>)
           (filter ownedByDaemonSet bound)))"

section \<open>Example values\<close>

definition emptyStatus :: "names NodeRolloutStatus" where
  "emptyStatus =
     \<lparr>Phase = '''', ReplacementsCreated = None, ReplacementsCreatedCount = 0,
      ReplacementsCompleted = None, ReplacementsCompletedCount = 0,
      ReplacementsFailed = None, ReplacementsFailedCount = 0,
      CompletionTimestamp = None, Conditions = None\<rparr>"

definition emptyResult :: "names Result" where
  "emptyResult =
     \<lparr>resultPhase = None, resultReplacementsCreated = None,
      resultReplacementsCreatedError = None, resultReplacementsCreatedReason = '''',
      resultReplacementsCompleted = None,
      resultReplacementsInProgressError = None, resultReplacementsInProgressReason = '''',
      resultCompletionTimestamp = None\<rparr>"

definition exampleNodeRollout :: "names NodeRollout" where
  "exampleNodeRollout = \<lparr>ObjectMeta = ''example'', Spec = '''', InstanceStatus = emptyStatus\<rparr>"

definition acceptingClient :: Client where
  "acceptingClient = \<lparr>reject = (\<lambda>obj. None), calls = [], objects = (\<lambda>name. None)\<rparr>"

definition rejectingClient :: Client where
  "rejectingClient = \<lparr>reject = (\<lambda>obj. Some ''conflict''), calls = [], objects = (\<lambda>name. None)\<rparr>"

definition exampleClock :: Clock where
  "exampleClock n = 1000 + n"

definition withStatus :: "names NodeRolloutStatus \<Rightarrow> names NodeRollout" where
  "withStatus status = exampleNodeRollout\<lparr>InstanceStatus := status\<rparr>"

definition exampleCondition :: NodeRolloutCondition where
  "exampleCondition =
     \<lparr>Type = ReplacementsCreatedType, Status = ''True'', LastUpdateTime = 10,
      LastTransitionTime = 10, Reason = ''Created'', Message = ''old''\<rparr>"

definition exampleNodeReplacement :: NodeReplacement where
  "exampleNodeReplacement =
     \<lparr>ReplacementName = ''example'', ReplacementPriority = 0, ReplacementPhase = ''New''\<rparr>"

definition highPriorityNR :: NodeReplacement where
  "highPriorityNR = exampleNodeReplacement\<lparr>ReplacementName := ''high-priority'', ReplacementPriority := 10\<rparr>"

definition inProgressNR :: NodeReplacement where
  "inProgressNR = exampleNodeReplacement\<lparr>ReplacementName := ''in-progress'',
                                           ReplacementPhase := ReplacementPhaseInProgress\<rparr>"

definition newPod :: "string \<Rightarrow> string \<Rightarrow> Pod" where
  "newPod name node = \<lparr>PodName = name, PodNodeName = node, OwnerReferences = []\<rparr>"

definition examplePods :: "Pod list" where
  "examplePods =
     [newPod ''pod-1'' ''example-worker-1'',
      (newPod ''pod-2'' ''example-worker-1'')
         \<lparr>OwnerReferences := [\<lparr>OwnerKind = ''DaemonSet'', OwnerName = ''example''\<rparr>]\<rparr>,
      newPod ''pod-3'' ''example-worker-1'',
      newPod ''pod-4'' ''example-worker-2'']"

definition sharedHeap :: Heap where
  "sharedHeap =
     \<lparr>heapArrays = (\<lambda>a. [])(0 := [''m1'', ''w1'', ''m2'', ''w2''], 1 := [''x'']),
      heapNext = 2, growslice = (\<lambda>n. 2 * n)\<rparr>"

definition emptyStatusH :: "Slice NodeRolloutStatus" where
  "emptyStatusH =
     \<lparr>Phase = '''', ReplacementsCreated = None, ReplacementsCreatedCount = 0,
      ReplacementsCompleted = None, ReplacementsCompletedCount = 0,
      ReplacementsFailed = None, ReplacementsFailedCount = 0,
      CompletionTimestamp = None, Conditions = None\<rparr>"

definition emptyResultH :: "Slice Result" where
  "emptyResultH =
     \<lparr>resultPhase = None, resultReplacementsCreated = None,
      resultReplacementsCreatedError = None, resultReplacementsCreatedReason = '''',
      resultReplacementsCompleted = None,
      resultReplacementsInProgressError = None, resultReplacementsInProgressReason = '''',
      resultCompletionTimestamp = None\<rparr>"

definition overlappingInstance :: "Slice NodeRollout" where
  "overlappingInstance =
     \<lparr>ObjectMeta = ''example'', Spec = '''',
      InstanceStatus = emptyStatusH
        \<lparr>ReplacementsCreated := Some \<lparr>sliceBase = 0, sliceOff = 0, sliceLen = 4, sliceCap = 4\<rparr>,
         ReplacementsCreatedCount := 4,
         ReplacementsCompleted := Some \<lparr>sliceBase = 0, sliceOff = 0, sliceLen = 2, sliceCap = 4\<rparr>,
         ReplacementsCompletedCount := 2\<rparr>\<rparr>"

definition resultX :: "Slice Result" where
  "resultX = emptyResultH
     \<lparr>resultReplacementsCompleted := Some \<lparr>sliceBase = 1, sliceOff = 0, sliceLen = 1, sliceCap = 1\<rparr>\<rparr>"

definition separateHeap :: Heap where
  "separateHeap =
     \<lparr>heapArrays = (\<lambda>a. [])(0 := [''m1'', ''w1'', ''m2'', ''w2''], 1 := [''x''],
                               2 := [''m1'', ''w1'', '''', '''']),
      heapNext = 3, growslice = (\<lambda>n. 2 * n)\<rparr>"

definition separateInstance :: "Slice NodeRollout" where
  "separateInstance =
     \<lparr>ObjectMeta = ''example'', Spec = '''',
      InstanceStatus = emptyStatusH
        \<lparr>ReplacementsCreated := Some \<lparr>sliceBase = 0, sliceOff = 0, sliceLen = 4, sliceCap = 4\<rparr>,
         ReplacementsCreatedCount := 4,
         ReplacementsCompleted := Some \<lparr>sliceBase = 2, sliceOff = 0, sliceLen = 2, sliceCap = 4\<rparr>,
         ReplacementsCompletedCount := 2\<rparr>\<rparr>"

definition emptyInstanceH :: "Slice NodeRollout" where
  "emptyInstanceH = \<lparr>ObjectMeta = ''example'', Spec = '''', InstanceStatus = emptyStatusH\<rparr>"

definition repeatedHeap :: Heap where
  "repeatedHeap =
     \<lparr>heapArrays = (\<lambda>a. [])(0 := [''m1'', ''m1'']), heapNext = 1, growslice = (\<lambda>n. 2 * n)\<rparr>"

definition repeatedResult :: "Slice Result" where
  "repeatedResult = emptyResultH
     \<lparr>resultReplacementsCompleted := Some \<lparr>sliceBase = 0, sliceOff = 0, sliceLen = 2, sliceCap = 2\<rparr>\<rparr>"

definition aliasedHeap :: Heap where
  "aliasedHeap =
     \<lparr>heapArrays = (\<lambda>a. [])(0 := [''a'', ''b'', ''c'', ''d'']), heapNext = 1,
      growslice = (\<lambda>n. 2 * n)\<rparr>"

definition aliasedInstance :: "Slice NodeRollout" where
  "aliasedInstance =
     \<lparr>ObjectMeta = ''example'', Spec = '''',
      InstanceStatus = emptyStatusH
        \<lparr>ReplacementsCompleted := Some \<lparr>sliceBase = 0, sliceOff = 1, sliceLen = 1, sliceCap = 3\<rparr>,
         ReplacementsCompletedCount := 1\<rparr>\<rparr>"

definition aliasedResult :: "Slice Result" where
  "aliasedResult = emptyResultH
     \<lparr>resultReplacementsCompleted := Some \<lparr>sliceBase = 0, sliceOff = 0, sliceLen = 4, sliceCap = 4\<rparr>\<rparr>"

section \<open>Properties of the merge steps\<close>

lemma found_iff: "found slice i \<longleftrightarrow> i \<in> set slice"
  by (induction slice) auto

lemma set_appendIfMissingElement: "set (appendIfMissingElement slice i) = insert i (set slice)"
  by (auto simp: appendIfMissingElement_def found_iff)

lemma set_appendIfMissingStr: "set (appendIfMissingStr merged str) = set merged \<union> set str"
  by (induction str arbitrary: merged) (auto simp: set_appendIfMissingElement)

lemma items_filterOutLoop:
  "items (filterOutLoop acc cs t) = items acc @ filter (\<lambda>c. Type c \<noteq> t) cs"
  by (induction cs arbitrary: acc) (auto simp: items_def)

lemma items_filterOutCondition:
  "items (filterOutCondition conditions t) = filter (\<lambda>c. Type c \<noteq> t) (items conditions)"
  by (simp add: filterOutCondition_def items_filterOutLoop) (simp add: items_def)

lemma firstOfType_Some: "firstOfType cs t = Some c \<Longrightarrow> c \<in> set cs \<and> Type c = t"
  by (induction cs) (auto split: if_splits)

lemma firstOfType_distinct:
  "distinct (map Type cs) \<Longrightarrow> c \<in> set cs \<Longrightarrow> firstOfType cs (Type c) = Some c"
  by (induction cs) (auto simp: image_iff)


lemma UpdateStatus_merged:
  "UpdateStatus clk c instance result =
     (case mergedStatus clk (InstanceStatus instance) result of
        Inl err \<Rightarrow> (Some err, c)
      | Inr status \<Rightarrow>
          if status \<noteq> InstanceStatus instance
          then (case Update c (instance\<lparr>InstanceStatus := status\<rparr>) of
                  (Some err, c1) \<Rightarrow> (Some (''error updating status: '' @ err), c1)
                | (None, c1) \<Rightarrow> (None, c1))
          else (None, c))"
  by (simp add: UpdateStatus_def mergedStatus_def Let_def split: sum.splits prod.splits)

lemma setPhase_fields:
  "ReplacementsCreated (setPhase s r) = ReplacementsCreated s"
  "ReplacementsCreatedCount (setPhase s r) = ReplacementsCreatedCount s"
  "ReplacementsCompleted (setPhase s r) = ReplacementsCompleted s"
  "ReplacementsCompletedCount (setPhase s r) = ReplacementsCompletedCount s"
  "CompletionTimestamp (setPhase s r) = CompletionTimestamp s"
  "Conditions (setPhase s r) = Conditions s"
  by (simp_all add: setPhase_def split: option.splits)

lemma setReplacementsCreated_Inl:
  "setReplacementsCreated s r = Inl e \<longleftrightarrow>
     ReplacementsCreated s \<noteq> None \<and> resultReplacementsCreated r \<noteq> None
     \<and> e = ''cannot update ReplacementsCreated, field is immutable once set''"
  by (auto simp: setReplacementsCreated_def)

lemma setReplacementsCreated_Inr:
  assumes "setReplacementsCreated s r = Inr s'"
  shows "ReplacementsCompleted s' = ReplacementsCompleted s"
    and "ReplacementsCompletedCount s' = ReplacementsCompletedCount s"
    and "CompletionTimestamp s' = CompletionTimestamp s"
    and "Conditions s' = Conditions s"
  using assms by (auto simp: setReplacementsCreated_def split: if_splits)

lemma setReplacementsCompleted_fields:
  "ReplacementsCreated (setReplacementsCompleted s r) = ReplacementsCreated s"
  "CompletionTimestamp (setReplacementsCompleted s r) = CompletionTimestamp s"
  "Conditions (setReplacementsCompleted s r) = Conditions s"
  by (simp_all add: setReplacementsCompleted_def Let_def split: option.splits)

lemma setReplacementsCompleted_cong:
  assumes "ReplacementsCompleted s1 = ReplacementsCompleted s"
      and "ReplacementsCompletedCount s1 = ReplacementsCompletedCount s"
  shows "ReplacementsCompleted (setReplacementsCompleted s1 r) = ReplacementsCompleted (setReplacementsCompleted s r)"
    and "ReplacementsCompletedCount (setReplacementsCompleted s1 r) = ReplacementsCompletedCount (setReplacementsCompleted s r)"
  using assms by (simp_all add: setReplacementsCompleted_def Let_def split: option.splits)

lemma setCompletionTimestamp_Inl:
  "setCompletionTimestamp s r = Inl e \<longleftrightarrow>
     CompletionTimestamp s \<noteq> None \<and> resultCompletionTimestamp r \<noteq> None
     \<and> e = ''cannot update CompletionTimestamp, field is immutable once set''"
  by (auto simp: setCompletionTimestamp_def)

lemma setCompletionTimestamp_Inr:
  assumes "setCompletionTimestamp s r = Inr s'"
  shows "ReplacementsCompleted s' = ReplacementsCompleted s"
    and "ReplacementsCompletedCount s' = ReplacementsCompletedCount s"
    and "ReplacementsCreated s' = ReplacementsCreated s"
    and "Conditions s' = Conditions s"
  using assms by (auto simp: setCompletionTimestamp_def split: if_splits)

lemma setNodeRolloutCondition_fields:
  "ReplacementsCompleted (setNodeRolloutCondition s cond) = ReplacementsCompleted s"
  "ReplacementsCompletedCount (setNodeRolloutCondition s cond) = ReplacementsCompletedCount s"
  by (simp_all add: setNodeRolloutCondition_def Let_def)

lemma setCreatedCondition_eq:
  "setCreatedCondition clk n s r =
     (if resultReplacementsCreatedError r \<noteq> None \<and> resultReplacementsCreatedReason r = ''''
      then Inl ''if ReplacementsCreatedError is set, ReplacementsCreatedReason must also be set''
      else if resultReplacementsCreatedReason r \<noteq> ''''
      then Inr (setNodeRolloutCondition s
                 \<lparr>Type = ReplacementsCreatedType,
                  Status = (if resultReplacementsCreatedError r \<noteq> None then ConditionFalse else ConditionTrue),
                  LastUpdateTime = clk n, LastTransitionTime = clk (Suc n),
                  Reason = resultReplacementsCreatedReason r,
                  Message = (case resultReplacementsCreatedError r of None \<Rightarrow> '''' | Some err \<Rightarrow> err)\<rparr>,
                Suc (Suc n))
      else Inr (s, n))"
  by (simp add: setCreatedCondition_def newNodeRolloutCondition_def split: option.splits)

lemma setInProgressCondition_eq:
  "setInProgressCondition clk n s r =
     (if resultReplacementsInProgressError r \<noteq> None \<and> resultReplacementsInProgressReason r = ''''
      then Inl ''if ReplacementsInProgressError is set, ReplacementsInProgressReason must also be set''
      else if resultReplacementsInProgressReason r \<noteq> ''''
      then Inr (setNodeRolloutCondition s
                 \<lparr>Type = ReplacementsInProgressType,
                  Status = (if resultReplacementsInProgressError r \<noteq> None
                               \<or> resultReplacementsInProgressReason r = ''ReplacementsCompleted''
                            then ConditionFalse else ConditionTrue),
                  LastUpdateTime = clk n, LastTransitionTime = clk (Suc n),
                  Reason = resultReplacementsInProgressReason r,
                  Message = (case resultReplacementsInProgressError r of None \<Rightarrow> '''' | Some err \<Rightarrow> err)\<rparr>,
                Suc (Suc n))
      else Inr (s, n))"
  by (simp add: setInProgressCondition_def newNodeRolloutCondition_def Let_def split: option.splits)

lemma setCreatedCondition_Inr:
  assumes "setCreatedCondition clk n s r = Inr (s', n')"
  shows "ReplacementsCompleted s' = ReplacementsCompleted s"
    and "ReplacementsCompletedCount s' = ReplacementsCompletedCount s"
  using assms
  by (auto simp: setCreatedCondition_eq setNodeRolloutCondition_fields split: if_splits)

lemma setInProgressCondition_Inr:
  assumes "setInProgressCondition clk n s r = Inr (s', n')"
  shows "ReplacementsCompleted s' = ReplacementsCompleted s"
    and "ReplacementsCompletedCount s' = ReplacementsCompletedCount s"
  using assms
  by (auto simp: setInProgressCondition_eq setNodeRolloutCondition_fields split: if_splits)

lemma mergedStatus_Inr:
  assumes "mergedStatus clk s r = Inr s'"
  obtains s1 s3 s4 n4 n5 where
    "setReplacementsCreated (setPhase s r) r = Inr s1"
    "setCompletionTimestamp (setReplacementsCompleted s1 r) r = Inr s3"
    "setCreatedCondition clk 0 s3 r = Inr (s4, n4)"
    "setInProgressCondition clk n4 s4 r = Inr (s', n5)"
  using assms by (auto simp: mergedStatus_def split: sum.splits)

lemma mergedStatus_ReplacementsCompleted:
  assumes "mergedStatus clk s r = Inr s'"
  shows "ReplacementsCompleted s' = ReplacementsCompleted (setReplacementsCompleted s r)"
    and "ReplacementsCompletedCount s' = ReplacementsCompletedCount (setReplacementsCompleted s r)"
proof -
  from assms obtain s1 s3 s4 n4 n5 where
    s1: "setReplacementsCreated (setPhase s r) r = Inr s1" and
    s3: "setCompletionTimestamp (setReplacementsCompleted s1 r) r = Inr s3" and
    s4: "setCreatedCondition clk 0 s3 r = Inr (s4, n4)" and
    s5: "setInProgressCondition clk n4 s4 r = Inr (s', n5)"
    by (rule mergedStatus_Inr)
  have a: "ReplacementsCompleted s1 = ReplacementsCompleted s"
          "ReplacementsCompletedCount s1 = ReplacementsCompletedCount s"
    using setReplacementsCreated_Inr [OF s1] by (simp_all add: setPhase_fields)
  have "ReplacementsCompleted s' = ReplacementsCompleted (setReplacementsCompleted s1 r)"
    using setInProgressCondition_Inr(1) [OF s5] setCreatedCondition_Inr(1) [OF s4]
      setCompletionTimestamp_Inr(1) [OF s3] by simp
  then show "ReplacementsCompleted s' = ReplacementsCompleted (setReplacementsCompleted s r)"
    using setReplacementsCompleted_cong(1) [OF a] by simp
  have "ReplacementsCompletedCount s' = ReplacementsCompletedCount (setReplacementsCompleted s1 r)"
    using setInProgressCondition_Inr(2) [OF s5] setCreatedCondition_Inr(2) [OF s4]
      setCompletionTimestamp_Inr(2) [OF s3] by simp
  then show "ReplacementsCompletedCount s' = ReplacementsCompletedCount (setReplacementsCompleted s r)"
    using setReplacementsCompleted_cong(2) [OF a] by simp
qed

lemma appendIfMissingStr_ext:
  "\<exists>ext. appendIfMissingStr merged str = merged @ ext \<and> distinct ext
         \<and> set ext \<inter> set merged = {} \<and> set ext \<subseteq> set str"
proof (induction str arbitrary: merged)
  case Nil
  then show ?case by simp
next
  case (Cons ele str)
  show ?case
  proof (cases "ele \<in> set merged")
    case True
    then have "appendIfMissingElement merged ele = merged"
      by (simp add: appendIfMissingElement_def found_iff)
    with Cons.IH [of merged] show ?thesis by auto
  next
    case False
    then have e: "appendIfMissingElement merged ele = merged @ [ele]"
      by (simp add: appendIfMissingElement_def found_iff)
    from Cons.IH [of "merged @ [ele]"] obtain ext where
      "appendIfMissingStr (merged @ [ele]) str = (merged @ [ele]) @ ext" "distinct ext"
      "set ext \<inter> set (merged @ [ele]) = {}" "set ext \<subseteq> set str"
      by blast
    with False e have "appendIfMissingStr merged (ele # str) = merged @ (ele # ext)
        \<and> distinct (ele # ext) \<and> set (ele # ext) \<inter> set merged = {} \<and> set (ele # ext) \<subseteq> set (ele # str)"
      by auto
    then show ?thesis by blast
  qed
qed

lemma setReplacementsCompleted_None:
  "ReplacementsCompleted status = None \<Longrightarrow> resultReplacementsCompleted result = Some new \<Longrightarrow>
   ReplacementsCompleted (setReplacementsCompleted status result) = Some new
   \<and> ReplacementsCompletedCount (setReplacementsCompleted status result) = int (length new)"
  by (simp add: setReplacementsCompleted_def)

lemma setReplacementsCompleted_Some:
  "ReplacementsCompleted status = Some old \<Longrightarrow> resultReplacementsCompleted result = Some new \<Longrightarrow>
   ReplacementsCompleted (setReplacementsCompleted status result) = Some (appendIfMissingStr old new)
   \<and> ReplacementsCompletedCount (setReplacementsCompleted status result) = int (length (appendIfMissingStr old new))"
  by (simp add: setReplacementsCompleted_def Let_def)

lemma getNodeRolloutCondition_distinct:
  assumes "distinct (map Type (items (Conditions status)))"
      and "current \<in> set (items (Conditions status))"
  shows "getNodeRolloutCondition status (Type current) = Some current"
  using assms by (simp add: getNodeRolloutCondition_def firstOfType_distinct)

lemma setNodeRolloutCondition_found:
  assumes "getNodeRolloutCondition status (Type condition) = Some current"
  shows "setNodeRolloutCondition status condition =
          (if Status current = Status condition \<and> Reason current = Reason condition then status
           else if Status current = Status condition
           then status\<lparr>Conditions := Some (filter (\<lambda>c. Type c \<noteq> Type condition) (items (Conditions status))
                           @ [condition\<lparr>LastTransitionTime := LastTransitionTime current\<rparr>])\<rparr>
           else status\<lparr>Conditions := Some (filter (\<lambda>c. Type c \<noteq> Type condition) (items (Conditions status))
                           @ [condition])\<rparr>)"
  using assms by (simp add: setNodeRolloutCondition_def Let_def items_filterOutCondition)

lemma setNodeRolloutCondition_absent:
  assumes "getNodeRolloutCondition status (Type condition) = None"
  shows "setNodeRolloutCondition status condition =
           status\<lparr>Conditions := Some (filter (\<lambda>c. Type c \<noteq> Type condition) (items (Conditions status))
                           @ [condition])\<rparr>"
  using assms by (simp add: setNodeRolloutCondition_def Let_def items_filterOutCondition)

lemma filter_same_key_distinct:
  "distinct (map f xs) \<Longrightarrow> x \<in> set xs \<Longrightarrow> length (filter (\<lambda>c. f c = f x) xs) = 1"
proof (induction xs)
  case Nil
  then show ?case by simp
next
  case (Cons a xs)
  show ?case
  proof (cases "a = x")
    case True
    with Cons.prems have "filter (\<lambda>c. f c = f x) xs = []"
      by (auto simp: filter_empty_conv image_iff)
    with True show ?thesis by simp
  next
    case False
    with Cons.prems have "x \<in> set xs" "f a \<noteq> f x"
      by (auto simp: image_iff)
    with Cons show ?thesis by simp
  qed
qed

lemma distinct_filter_append_new:
  "distinct (map Type cs) \<Longrightarrow> Type c = t \<Longrightarrow>
   distinct (map Type (filter (\<lambda>c. Type c \<noteq> t) cs @ [c]))"
  by (auto simp: distinct_map_filter)

lemma one_after_filter_append:
  "Type c = t \<Longrightarrow> length (filter (\<lambda>x. Type x = t) (filter (\<lambda>c. Type c \<noteq> t) cs @ [c])) = 1"
  by (simp add: filter_empty_conv)

lemma getNodeRolloutCondition_Some:
  "getNodeRolloutCondition status t = Some c \<Longrightarrow> c \<in> set (items (Conditions status)) \<and> Type c = t"
  by (simp add: getNodeRolloutCondition_def firstOfType_Some)

lemma setNodeRolloutCondition_distinct:
  assumes "distinct (map Type (items (Conditions status)))"
  shows "distinct (map Type (items (Conditions (setNodeRolloutCondition status condition))))"
proof (cases "getNodeRolloutCondition status (Type condition)")
  case None
  show ?thesis
    using distinct_filter_append_new [OF assms, of condition "Type condition"]
    by (simp add: setNodeRolloutCondition_absent [OF None] items_def)
next
  case (Some current)
  show ?thesis
    using distinct_filter_append_new [OF assms, of condition "Type condition"]
      distinct_filter_append_new [OF assms,
        of "condition\<lparr>LastTransitionTime := LastTransitionTime current\<rparr>" "Type condition"]
      assms
    by (simp add: setNodeRolloutCondition_found [OF Some] items_def)
qed

lemma setNodeRolloutCondition_one:
  assumes "distinct (map Type (items (Conditions status)))"
  shows "length (filter (\<lambda>c. Type c = Type condition)
                   (items (Conditions (setNodeRolloutCondition status condition)))) = 1"
proof (cases "getNodeRolloutCondition status (Type condition)")
  case None
  show ?thesis
    using one_after_filter_append [of condition "Type condition" "items (Conditions status)"]
    by (simp add: setNodeRolloutCondition_absent [OF None] items_def)
next
  case (Some current)
  from getNodeRolloutCondition_Some [OF Some]
  have cur: "current \<in> set (items (Conditions status))" "Type current = Type condition"
    by simp_all
  have "length (filter (\<lambda>c. Type c = Type current) (items (Conditions status))) = 1"
    using filter_same_key_distinct [OF assms cur(1)] .
  then have same: "length (filter (\<lambda>c. Type c = Type condition) (items (Conditions status))) = 1"
    using cur(2) by simp
  show ?thesis
    using one_after_filter_append [of condition "Type condition" "items (Conditions status)"]
      one_after_filter_append [of "condition\<lparr>LastTransitionTime := LastTransitionTime current\<rparr>"
        "Type condition" "items (Conditions status)"] same
    by (simp add: setNodeRolloutCondition_found [OF Some] items_def)
qed

lemma setCreatedCondition_distinct:
  assumes "distinct (map Type (items (Conditions s)))"
      and "setCreatedCondition clk n s r = Inr (s', n')"
  shows "distinct (map Type (items (Conditions s')))"
  using assms setNodeRolloutCondition_distinct [OF assms(1)]
  by (auto simp: setCreatedCondition_eq split: if_splits)

lemma setInProgressCondition_distinct:
  assumes "distinct (map Type (items (Conditions s)))"
      and "setInProgressCondition clk n s r = Inr (s', n')"
  shows "distinct (map Type (items (Conditions s')))"
  using assms setNodeRolloutCondition_distinct [OF assms(1)]
  by (auto simp: setInProgressCondition_eq split: if_splits)

lemma mergedStatus_distinct:
  assumes "distinct (map Type (items (Conditions s)))"
      and "mergedStatus clk s r = Inr s'"
  shows "distinct (map Type (items (Conditions s')))"
proof -
  from assms(2) obtain s1 s3 s4 n4 n5 where
    s1: "setReplacementsCreated (setPhase s r) r = Inr s1" and
    s3: "setCompletionTimestamp (setReplacementsCompleted s1 r) r = Inr s3" and
    s4: "setCreatedCondition clk 0 s3 r = Inr (s4, n4)" and
    s5: "setInProgressCondition clk n4 s4 r = Inr (s', n5)"
    by (rule mergedStatus_Inr)
  have "Conditions s3 = Conditions s"
    using setCompletionTimestamp_Inr(4) [OF s3] setReplacementsCreated_Inr(4) [OF s1]
    by (simp add: setReplacementsCompleted_fields setPhase_fields)
  with assms(1) have "distinct (map Type (items (Conditions s3)))" by simp
  from setCreatedCondition_distinct [OF this s4]
  have "distinct (map Type (items (Conditions s4)))" .
  from setInProgressCondition_distinct [OF this s5] show ?thesis .
qed

lemma no_conflict_reaches_conditions:
  assumes "\<not> (ReplacementsCreated status \<noteq> None \<and> resultReplacementsCreated result \<noteq> None)"
      and "\<not> (CompletionTimestamp status \<noteq> None \<and> resultCompletionTimestamp result \<noteq> None)"
  obtains s1 s3 where
    "setReplacementsCreated (setPhase status result) result = Inr s1"
    "setCompletionTimestamp (setReplacementsCompleted s1 result) result = Inr s3"
proof -
  from assms(1) have "\<not> (\<exists>e. setReplacementsCreated (setPhase status result) result = Inl e)"
    by (simp add: setReplacementsCreated_Inl setPhase_fields)
  then obtain s1 where s1: "setReplacementsCreated (setPhase status result) result = Inr s1"
    by (cases "setReplacementsCreated (setPhase status result) result") auto
  have "CompletionTimestamp (setReplacementsCompleted s1 result) = CompletionTimestamp status"
    using setReplacementsCreated_Inr(3) [OF s1]
    by (simp add: setReplacementsCompleted_fields setPhase_fields)
  with assms(2)
  have "\<not> (\<exists>e. setCompletionTimestamp (setReplacementsCompleted s1 result) result = Inl e)"
    by (simp add: setCompletionTimestamp_Inl)
  then obtain s3 where "setCompletionTimestamp (setReplacementsCompleted s1 result) result = Inr s3"
    by (cases "setCompletionTimestamp (setReplacementsCompleted s1 result) result") auto
  with s1 show ?thesis by (rule that)
qed

lemma find_Some_set: "find P xs = Some x \<Longrightarrow> x \<in> set xs \<and> P x"
  by (induction xs) (auto split: if_splits)

lemmas examples =
  emptyStatus_def emptyResult_def exampleNodeRollout_def acceptingClient_def rejectingClient_def
  exampleClock_def withStatus_def

lemmas run =
  UpdateStatus_def setPhase_def setReplacementsCreated_def setReplacementsCompleted_def
  setCompletionTimestamp_def setCreatedCondition_def setInProgressCondition_def
  setNodeRolloutCondition_def getNodeRolloutCondition_def filterOutCondition_def
  newNodeRolloutCondition_def items_def appendIfMissingElement_def Update_def
  ConditionTrue_def ConditionFalse_def Let_def

section \<open>Properties of the heap model\<close>

lemma keeps_refl: "keeps h0 old h0"
  by (simp add: keeps_def)

lemma grown_start: "grown h0 old (Some old)"
  by (simp add: grown_def)

lemma goAppend_keeps:
  assumes "keeps h0 old h" and "grown h0 old m" and "goAppend h m x = (h', m')"
  shows "keeps h0 old h' \<and> grown h0 old m'"
proof (cases "sliceLen (header m) < sliceCap (header m)")
  case True
  then obtain s where m: "m = Some s"
    by (cases m) (auto simp: header_def nilSlice_def)
  with True have lt: "sliceLen s < sliceCap s" by (simp add: header_def)
  from assms(3) m lt have h': "h' = h\<lparr>heapArrays := (heapArrays h)
        (sliceBase s := (heapArrays h (sliceBase s))[sliceOff s + sliceLen s := x])\<rparr>"
    and m': "m' = Some (s\<lparr>sliceLen := Suc (sliceLen s)\<rparr>)"
    by (simp_all add: goAppend_def header_def Let_def)
  from assms(2) m consider
      (inOld) "sliceBase s = sliceBase old" "sliceOff s = sliceOff old" "sliceCap s = sliceCap old"
              "sliceLen old \<le> sliceLen s"
    | (fresh) "heapNext h0 \<le> sliceBase s"
    by (auto simp: grown_def)
  then show ?thesis
  proof cases
    case inOld
    have "keeps h0 old h'"
      unfolding keeps_def
    proof (intro conjI allI impI)
      show "heapNext h0 \<le> heapNext h'" using assms(1) h' by (simp add: keeps_def)
    next
      fix b assume "b < heapNext h0"
      then show "length (heapArrays h' b) = length (heapArrays h0 b)"
        using assms(1) h' by (simp add: keeps_def)
    next
      fix b i
      assume b: "b < heapNext h0"
        and i: "\<not> (b = sliceBase old \<and> sliceOff old + sliceLen old \<le> i \<and> i < sliceOff old + sliceCap old)"
      from assms(1) b i have old: "heapArrays h b ! i = heapArrays h0 b ! i"
        by (simp add: keeps_def)
      have "heapArrays h' b ! i = heapArrays h b ! i"
      proof (cases "b = sliceBase s \<and> i = sliceOff s + sliceLen s")
        case True
        with inOld lt i show ?thesis by simp
      next
        case False
        then show ?thesis using h' by (auto simp: nth_list_update)
      qed
      with old show "heapArrays h' b ! i = heapArrays h0 b ! i" by simp
    qed
    moreover have "grown h0 old m'"
      using inOld m' by (simp add: grown_def)
    ultimately show ?thesis ..
  next
    case fresh
    have "keeps h0 old h'"
      using assms(1) h' fresh by (auto simp: keeps_def)
    moreover have "grown h0 old m'"
      using fresh m' by (simp add: grown_def)
    ultimately show ?thesis ..
  qed
next
  case False
  with assms(3) have h': "h' = h\<lparr>heapArrays := (heapArrays h)
          (heapNext h := view h (header m) @ [x]
             @ replicate (max (Suc (sliceLen (header m))) (growslice h (sliceCap (header m)))
                           - Suc (sliceLen (header m))) ''''),
        heapNext := Suc (heapNext h)\<rparr>"
    and m': "m' = Some \<lparr>sliceBase = heapNext h, sliceOff = 0, sliceLen = Suc (sliceLen (header m)),
        sliceCap = max (Suc (sliceLen (header m))) (growslice h (sliceCap (header m)))\<rparr>"
    by (simp_all add: goAppend_def Let_def)
  have "keeps h0 old h'"
    using assms(1) h' by (auto simp: keeps_def)
  moreover have "grown h0 old m'"
    using assms(1) m' by (simp add: grown_def keeps_def)
  ultimately show ?thesis ..
qed

lemma appendIfMissingElementH_keeps:
  assumes "keeps h0 old h" and "grown h0 old m" and "appendIfMissingElementH h m x = (h', m')"
  shows "keeps h0 old h' \<and> grown h0 old m'"
proof (cases "found (view h (header m)) x")
  case True
  with assms show ?thesis by (simp add: appendIfMissingElementH_def)
next
  case False
  with assms(3) have "goAppend h m x = (h', m')" by (simp add: appendIfMissingElementH_def)
  from goAppend_keeps [OF assms(1,2) this] show ?thesis .
qed

lemma rangeStr_keeps:
  assumes "keeps h0 old h" and "grown h0 old m" and "rangeStr h m str i k = (h', m')"
  shows "keeps h0 old h' \<and> grown h0 old m'"
  using assms
proof (induction k arbitrary: h m i)
  case 0
  then show ?case by simp
next
  case (Suc k)
  obtain h1 m1 where step:
    "appendIfMissingElementH h m (heapArrays h (sliceBase str) ! (sliceOff str + i)) = (h1, m1)"
    by (cases "appendIfMissingElementH h m (heapArrays h (sliceBase str) ! (sliceOff str + i))")
  with Suc.prems(3) have rest: "rangeStr h1 m1 str (Suc i) k = (h', m')"
    by (simp add: Let_def)
  from appendIfMissingElementH_keeps [OF Suc.prems(1,2) step]
  have "keeps h0 old h1" "grown h0 old m1" by simp_all
  from Suc.IH [OF this rest] show ?case .
qed

lemma appendIfMissingStrH_keeps:
  assumes "appendIfMissingStrH h0 (Some old) str = (h', m')"
  shows "keeps h0 old h'"
  using rangeStr_keeps [OF keeps_refl grown_start] assms
  by (auto simp: appendIfMissingStrH_def)

lemma view_nth:
  "view h t = map (\<lambda>i. heapArrays h (sliceBase t) ! (sliceOff t + i))
                [0 ..< min (sliceLen t) (length (heapArrays h (sliceBase t)) - sliceOff t)]"
  by (auto simp: view_def intro!: nth_equalityI)

lemma keeps_view:
  assumes "keeps h0 old h" and "wfSlice h0 t" and "apart old t"
  shows "view h t = view h0 t"
proof -
  from assms(2) have b: "sliceBase t < heapNext h0"
    and fit: "sliceOff t + sliceLen t \<le> length (heapArrays h0 (sliceBase t))"
    by (auto simp: wfSlice_def)
  from assms(1) b have len: "length (heapArrays h (sliceBase t)) = length (heapArrays h0 (sliceBase t))"
    by (simp add: keeps_def)
  have "heapArrays h (sliceBase t) ! (sliceOff t + i) = heapArrays h0 (sliceBase t) ! (sliceOff t + i)"
    if "i < sliceLen t" for i
  proof -
    from assms(3) that
    have "\<not> (sliceBase t = sliceBase old \<and> sliceOff old + sliceLen old \<le> sliceOff t + i
              \<and> sliceOff t + i < sliceOff old + sliceCap old)"
      by (auto simp: apart_def)
    with assms(1) b show ?thesis
      by (simp add: keeps_def)
  qed
  then show ?thesis
    by (simp add: view_nth len)
qed

lemma setReplacementsCompletedH_keeps:
  assumes "ReplacementsCompleted status = Some old"
      and "setReplacementsCompletedH h status result = (h', status')"
  shows "keeps h old h'"
proof (cases "resultReplacementsCompleted result")
  case None
  with assms show ?thesis
    by (simp add: setReplacementsCompletedH_def keeps_refl)
next
  case (Some new)
  obtain h1 merged where a: "appendIfMissingStrH h (Some old) (Some new) = (h1, merged)"
    by (cases "appendIfMissingStrH h (Some old) (Some new)")
  with assms Some have "h' = h1"
    by (auto simp: setReplacementsCompletedH_def Let_def split: if_splits)
  with appendIfMissingStrH_keeps [OF a] show ?thesis by simp
qed

lemma setReplacementsCompletedH_None:
  assumes "ReplacementsCompleted status = None"
  shows "fst (setReplacementsCompletedH h status result) = h"
  using assms by (simp add: setReplacementsCompletedH_def)

lemma setReplacementsCreatedH_Inr:
  assumes "setReplacementsCreatedH s r = Inr s'"
  shows "ReplacementsCompleted s' = ReplacementsCompleted s"
  using assms by (auto simp: setReplacementsCreatedH_def split: if_splits)

lemma UpdateStatusH_heap:
  assumes "UpdateStatusH clk c h instance result = (err, c', h')"
  shows "h' = h \<or> (\<exists>status1. ReplacementsCompleted status1 = ReplacementsCompleted (InstanceStatus instance)
                       \<and> h' = fst (setReplacementsCompletedH h status1 result))"
proof (cases "setReplacementsCreatedH (setPhase (InstanceStatus instance) result) result")
  case (Inl e)
  with assms show ?thesis by (simp add: UpdateStatusH_def)
next
  case (Inr status1)
  from setReplacementsCreatedH_Inr [OF Inr]
  have same: "ReplacementsCompleted status1 = ReplacementsCompleted (InstanceStatus instance)"
    by (simp add: setPhase_fields)
  from assms Inr have "h' = fst (setReplacementsCompletedH h status1 result)"
    by (auto simp: UpdateStatusH_def Let_def Update_def
             split: sum.splits prod.splits if_splits option.splits)
  with same show ?thesis by blast
qed

lemma UpdateStatusH_keeps:
  assumes "UpdateStatusH clk c h instance result = (err, c', h')"
  shows "h' = h \<or> (\<exists>old. ReplacementsCompleted (InstanceStatus instance) = Some old \<and> keeps h old h')"
proof -
  from UpdateStatusH_heap [OF assms] consider "h' = h"
    | status1 where "ReplacementsCompleted status1 = ReplacementsCompleted (InstanceStatus instance)"
        "h' = fst (setReplacementsCompletedH h status1 result)"
    by blast
  then show ?thesis
  proof cases
    case 1
    then show ?thesis by simp
  next
    case 2
    show ?thesis
    proof (cases "ReplacementsCompleted (InstanceStatus instance)")
      case None
      with 2 setReplacementsCompletedH_None [of status1 h result] show ?thesis by simp
    next
      case (Some old)
      with 2 have "ReplacementsCompleted status1 = Some old" by simp
      from setReplacementsCompletedH_keeps [OF this, of h result h' "snd (setReplacementsCompletedH h status1 result)"] 2
      have "keeps h old h'" by simp
      with Some show ?thesis by simp
    qed
  qed
qed

lemma separated_view:
  assumes "separated h status" and "ReplacementsCompleted status = Some old" and "keeps h old h'"
  shows "viewStatus h' status = viewStatus h status"
proof -
  have "view h' t = view h t" if "t \<in> set (statusSlices status)" for t
    using assms that keeps_view [of h old h' t] by (auto simp: separated_def)
  then have "map_option (view h') (ReplacementsCreated status) = map_option (view h) (ReplacementsCreated status)"
    "map_option (view h') (ReplacementsCompleted status) = map_option (view h) (ReplacementsCompleted status)"
    "map_option (view h') (ReplacementsFailed status) = map_option (view h) (ReplacementsFailed status)"
    by (auto simp: statusSlices_def map_option_case split: option.splits)
  then show ?thesis by (simp add: viewStatus_def)
qed

lemmas runH =
  UpdateStatusH_def setReplacementsCreatedH_def setReplacementsCompletedH_def appendIfMissingStrH_def
  appendIfMissingElementH_def goAppend_def header_def nilSlice_def view_def viewStatus_def
  viewInstance_def viewResult_def

lemmas examplesH =
  sharedHeap_def separateHeap_def emptyStatusH_def emptyResultH_def overlappingInstance_def
  separateInstance_def resultX_def

lemma length_view: "wfSlice h s \<Longrightarrow> length (view h s) = sliceLen s"
  by (auto simp: wfSlice_def view_def)

lemma length_view_header: "wfHeader h m \<Longrightarrow> length (view h (header m)) = sliceLen (header m)"
  by (cases m) (auto simp: wfHeader_def wfSlice_def header_def nilSlice_def view_def)

lemma goAppend_view:
  assumes "wfHeader h m" and "goAppend h m x = (h', m')"
  shows "view h' (header m') = view h (header m) @ [x] \<and> wfHeader h' m' \<and> m' \<noteq> None"
proof (cases "sliceLen (header m) < sliceCap (header m)")
  case True
  then obtain s where m: "m = Some s"
    by (cases m) (auto simp: header_def nilSlice_def)
  with True have lt: "sliceLen s < sliceCap s" by (simp add: header_def)
  from assms(1) m have wf: "sliceBase s < heapNext h" "sliceOff s + sliceCap s \<le> length (heapArrays h (sliceBase s))"
    by (simp_all add: wfHeader_def wfSlice_def)
  from assms(2) m lt have h': "h' = h\<lparr>heapArrays := (heapArrays h)
        (sliceBase s := (heapArrays h (sliceBase s))[sliceOff s + sliceLen s := x])\<rparr>"
    and m': "m' = Some (s\<lparr>sliceLen := Suc (sliceLen s)\<rparr>)"
    by (simp_all add: goAppend_def header_def Let_def)
  let ?arr = "heapArrays h (sliceBase s)"
  have "take (Suc (sliceLen s)) (drop (sliceOff s) (?arr[sliceOff s + sliceLen s := x]))
        = take (sliceLen s) (drop (sliceOff s) ?arr) @ [x]"
    using wf lt by (simp add: take_Suc_conv_app_nth drop_update_swap)
  then have "view h' (header m') = view h (header m) @ [x]"
    using h' m' m by (simp add: view_def header_def)
  moreover have "wfHeader h' m'"
    using h' m' wf lt by (simp add: wfHeader_def wfSlice_def)
  ultimately show ?thesis using m' by simp
next
  case False
  let ?n = "max (Suc (sliceLen (header m))) (growslice h (sliceCap (header m)))"
  from False assms(2) have h': "h' = h\<lparr>heapArrays := (heapArrays h)
          (heapNext h := view h (header m) @ [x] @ replicate (?n - Suc (sliceLen (header m))) ''''),
        heapNext := Suc (heapNext h)\<rparr>"
    and m': "m' = Some \<lparr>sliceBase = heapNext h, sliceOff = 0, sliceLen = Suc (sliceLen (header m)),
        sliceCap = ?n\<rparr>"
    by (simp_all add: goAppend_def Let_def)
  from length_view_header [OF assms(1)]
  have len: "length (view h (header m)) = sliceLen (header m)" .
  have "view h' (header m') = view h (header m) @ [x]"
    using h' m' len by (simp add: view_def header_def)
  moreover have "wfHeader h' m'"
    using h' m' len by (simp add: wfHeader_def wfSlice_def)
  ultimately show ?thesis using m' by simp
qed

lemma appendIfMissingElementH_view:
  assumes "wfHeader h m" and "appendIfMissingElementH h m x = (h', m')"
  shows "view h' (header m') = appendIfMissingElement (view h (header m)) x
       \<and> wfHeader h' m' \<and> (m \<noteq> None \<longrightarrow> m' \<noteq> None)"
proof (cases "found (view h (header m)) x")
  case True
  with assms show ?thesis
    by (simp add: appendIfMissingElementH_def appendIfMissingElement_def)
next
  case False
  with assms(2) have "goAppend h m x = (h', m')" by (simp add: appendIfMissingElementH_def)
  from goAppend_view [OF assms(1) this] False show ?thesis
    by (simp add: appendIfMissingElement_def)
qed

lemma rangeStr_view:
  assumes "keeps h0 old h" and "grown h0 old m" and "wfHeader h m" and "m \<noteq> None"
      and "wfSlice h0 str" and "apart old str" and "i + k = sliceLen str"
      and "rangeStr h m str i k = (h', m')"
  shows "view h' (header m') = appendIfMissingStr (view h (header m)) (drop i (view h0 str))
       \<and> wfHeader h' m' \<and> m' \<noteq> None"
  using assms(1,2,3,4,7,8)
proof (induction k arbitrary: h m i)
  case 0
  with assms(5) show ?case by (simp add: length_view)
next
  case (Suc k)
  let ?ele = "heapArrays h (sliceBase str) ! (sliceOff str + i)"
  obtain h1 m1 where step: "appendIfMissingElementH h m ?ele = (h1, m1)"
    by (cases "appendIfMissingElementH h m ?ele")
  with Suc.prems(6) have rest: "rangeStr h1 m1 str (Suc i) k = (h', m')"
    by (simp add: Let_def)
  from Suc.prems(5) have i: "i < sliceLen str" by simp
  from assms(5) have b: "sliceBase str < heapNext h0"
    and fit: "sliceOff str + sliceLen str \<le> length (heapArrays h0 (sliceBase str))"
    by (auto simp: wfSlice_def)
  from assms(6) i
  have "\<not> (sliceBase str = sliceBase old \<and> sliceOff old + sliceLen old \<le> sliceOff str + i
            \<and> sliceOff str + i < sliceOff old + sliceCap old)"
    by (auto simp: apart_def)
  with Suc.prems(1) b have "?ele = heapArrays h0 (sliceBase str) ! (sliceOff str + i)"
    by (simp add: keeps_def)
  also have "\<dots> = view h0 str ! i"
    using i fit by (simp add: view_def)
  finally have ele: "?ele = view h0 str ! i" .
  from i assms(5) have "i < length (view h0 str)" by (simp add: length_view)
  then have dr: "drop i (view h0 str) = ?ele # drop (Suc i) (view h0 str)"
    using ele by (simp add: Cons_nth_drop_Suc)
  from appendIfMissingElementH_view [OF Suc.prems(3) step] Suc.prems(4)
  have v1: "view h1 (header m1) = appendIfMissingElement (view h (header m)) ?ele"
    and wf1: "wfHeader h1 m1" and nn: "m1 \<noteq> None" by simp_all
  from appendIfMissingElementH_keeps [OF Suc.prems(1,2) step]
  have k1: "keeps h0 old h1" "grown h0 old m1" by simp_all
  from Suc.prems(5) have "Suc i + k = sliceLen str" by simp
  from Suc.IH [OF k1 wf1 nn this rest] v1 dr show ?case by simp
qed

lemma appendIfMissingStrH_view:
  assumes "wfSlice h old" and "wfSlice h new" and "apart old new"
      and "appendIfMissingStrH h (Some old) (Some new) = (h', m')"
  shows "view h' (header m') = appendIfMissingStr (view h old) (view h new)
       \<and> wfHeader h' m' \<and> m' \<noteq> None"
proof -
  from assms(4) have r: "rangeStr h (Some old) new 0 (sliceLen new) = (h', m')"
    by (simp add: appendIfMissingStrH_def header_def)
  have "wfHeader h (Some old)" using assms(1) by (simp add: wfHeader_def)
  from rangeStr_view [OF keeps_refl grown_start this _ assms(2,3) _ r]
  show ?thesis by (simp add: header_def)
qed

lemma viewStatus_fields:
  "Phase (viewStatus h s) = Phase s"
  "ReplacementsCreated (viewStatus h s) = map_option (view h) (ReplacementsCreated s)"
  "ReplacementsCompleted (viewStatus h s) = map_option (view h) (ReplacementsCompleted s)"
  "ReplacementsFailed (viewStatus h s) = map_option (view h) (ReplacementsFailed s)"
  "ReplacementsCreatedCount (viewStatus h s) = ReplacementsCreatedCount s"
  "ReplacementsCompletedCount (viewStatus h s) = ReplacementsCompletedCount s"
  "CompletionTimestamp (viewStatus h s) = CompletionTimestamp s"
  "Conditions (viewStatus h s) = Conditions s"
  by (simp_all add: viewStatus_def)

lemma viewResult_fields:
  "resultPhase (viewResult h r) = resultPhase r"
  "resultReplacementsCreated (viewResult h r) = map_option (view h) (resultReplacementsCreated r)"
  "resultReplacementsCompleted (viewResult h r) = map_option (view h) (resultReplacementsCompleted r)"
  "resultReplacementsCreatedError (viewResult h r) = resultReplacementsCreatedError r"
  "resultReplacementsCreatedReason (viewResult h r) = resultReplacementsCreatedReason r"
  "resultReplacementsInProgressError (viewResult h r) = resultReplacementsInProgressError r"
  "resultReplacementsInProgressReason (viewResult h r) = resultReplacementsInProgressReason r"
  "resultCompletionTimestamp (viewResult h r) = resultCompletionTimestamp r"
  by (simp_all add: viewResult_def)

lemma viewStatus_setPhase:
  "viewStatus h (setPhase s r) = setPhase (viewStatus h s) (viewResult h0 r)"
  by (simp add: setPhase_def viewResult_fields split: option.splits) (simp add: viewStatus_def)

lemma viewStatus_setCompletionTimestamp:
  "setCompletionTimestamp (viewStatus h s) (viewResult h0 r)
     = map_sum id (viewStatus h) (setCompletionTimestamp s r)"
  by (simp add: setCompletionTimestamp_def viewResult_fields viewStatus_fields) (simp add: viewStatus_def)

lemma viewStatus_setNodeRolloutCondition:
  "setNodeRolloutCondition (viewStatus h s) cond = viewStatus h (setNodeRolloutCondition s cond)"
proof -
  have same: "getNodeRolloutCondition (viewStatus h s) (Type cond) = getNodeRolloutCondition s (Type cond)"
    by (simp add: getNodeRolloutCondition_def viewStatus_fields)
  show ?thesis
  proof (cases "getNodeRolloutCondition s (Type cond)")
    case None
    with same have "getNodeRolloutCondition (viewStatus h s) (Type cond) = None" by simp
    from setNodeRolloutCondition_absent [OF this] setNodeRolloutCondition_absent [OF None]
    show ?thesis by (simp add: viewStatus_def)
  next
    case (Some current)
    with same have "getNodeRolloutCondition (viewStatus h s) (Type cond) = Some current" by simp
    from setNodeRolloutCondition_found [OF this] setNodeRolloutCondition_found [OF Some]
    show ?thesis by (simp add: viewStatus_def)
  qed
qed

lemma viewStatus_setCreatedCondition:
  "setCreatedCondition clk n (viewStatus h s) (viewResult h0 r)
     = map_sum id (map_prod (viewStatus h) id) (setCreatedCondition clk n s r)"
  by (simp add: setCreatedCondition_eq viewResult_fields viewStatus_setNodeRolloutCondition)

lemma viewStatus_setInProgressCondition:
  "setInProgressCondition clk n (viewStatus h s) (viewResult h0 r)
     = map_sum id (map_prod (viewStatus h) id) (setInProgressCondition clk n s r)"
  by (simp add: setInProgressCondition_eq viewResult_fields viewStatus_setNodeRolloutCondition)

lemma viewStatus_setReplacementsCreated:
  assumes "\<forall>t \<in> set (sliceOf (resultReplacementsCreated r)). wfSlice h t"
  shows "setReplacementsCreated (viewStatus h s) (viewResult h r)
           = map_sum id (viewStatus h) (setReplacementsCreatedH s r)"
proof (cases "resultReplacementsCreated r")
  case None
  then show ?thesis
    by (simp add: setReplacementsCreated_def setReplacementsCreatedH_def viewResult_fields viewStatus_fields)
next
  case (Some t)
  with assms have "length (view h t) = sliceLen t" by (simp add: length_view)
  with Some show ?thesis
    by (simp add: setReplacementsCreated_def setReplacementsCreatedH_def viewResult_fields viewStatus_fields)
       (simp add: viewStatus_def)
qed

lemma setReplacementsCompletedH_view:
  assumes "separated h status" and "resultSeparated h status result"
      and "setReplacementsCompletedH h status result = (h2, status2)"
  shows "viewStatus h2 status2 = setReplacementsCompleted (viewStatus h status) (viewResult h result)"
proof (cases "resultReplacementsCompleted result")
  case None
  with assms(3) have "h2 = h" "status2 = status"
    by (simp_all add: setReplacementsCompletedH_def)
  with None show ?thesis
    by (simp add: setReplacementsCompleted_def viewResult_fields viewStatus_fields split: option.splits)
next
  case new: (Some new)
  with assms(2) have wfnew: "wfSlice h new"
    by (simp add: resultSeparated_def resultSlices_def)
  show ?thesis
  proof (cases "ReplacementsCompleted status")
    case None
    with new assms(3) have "h2 = h"
      "status2 = status\<lparr>ReplacementsCompleted := Some new,
                         ReplacementsCompletedCount := int (sliceLen new)\<rparr>"
      by (simp_all add: setReplacementsCompletedH_def)
    with None new length_view [OF wfnew] show ?thesis
      by (simp add: setReplacementsCompleted_def viewResult_fields viewStatus_fields)
         (simp add: viewStatus_def)
  next
    case (Some old)
    with assms(1) have wfold: "wfSlice h old"
      by (simp add: separated_def statusSlices_def)
    from assms(2) Some new have ap: "apart old new"
      by (simp add: resultSeparated_def resultSlices_def)
    obtain h' merged where a: "appendIfMissingStrH h (Some old) (Some new) = (h', merged)"
      by (cases "appendIfMissingStrH h (Some old) (Some new)")
    from appendIfMissingStrH_view [OF wfold wfnew ap a]
    have v: "view h' (header merged) = appendIfMissingStr (view h old) (view h new)"
      and wfm: "wfHeader h' merged" and "merged \<noteq> None" by simp_all
    then obtain ms where ms: "merged = Some ms" by auto
    from length_view_header [OF wfm] ms have len: "length (view h' ms) = sliceLen ms"
      by (simp add: header_def)
    from a Some new assms(3) ms have h2: "h2 = h'"
      and s2: "status2 = status\<lparr>ReplacementsCompleted := Some ms,
                                 ReplacementsCompletedCount := int (sliceLen ms)\<rparr>"
      by (simp_all add: setReplacementsCompletedH_def header_def)
    from appendIfMissingStrH_keeps [OF a] have k: "keeps h old h'" .
    from separated_view [OF assms(1) Some k]
    have same: "viewStatus h' status = viewStatus h status" .
    have "viewStatus h' status2
          = (viewStatus h' status)\<lparr>ReplacementsCompleted := Some (view h' ms),
                                    ReplacementsCompletedCount := int (sliceLen ms)\<rparr>"
      using s2 by (simp add: viewStatus_def)
    also have "\<dots> = (viewStatus h status)\<lparr>ReplacementsCompleted :=
                          Some (appendIfMissingStr (view h old) (view h new)),
                        ReplacementsCompletedCount :=
                          int (length (appendIfMissingStr (view h old) (view h new)))\<rparr>"
      using same v ms len by (simp add: header_def)
    also have "\<dots> = setReplacementsCompleted (viewStatus h status) (viewResult h result)"
      using Some new
      by (simp add: setReplacementsCompleted_def viewResult_fields viewStatus_fields Let_def)
    finally show ?thesis using h2 by simp
  qed
qed

lemma setReplacementsCreatedH_separated:
  assumes "separated h status" and "resultSeparated h status result"
      and "setReplacementsCreatedH status result = Inr status1"
  shows "separated h status1 \<and> resultSeparated h status1 result
       \<and> ReplacementsCompleted status1 = ReplacementsCompleted status"
  using assms
  by (auto simp: setReplacementsCreatedH_def separated_def resultSeparated_def statusSlices_def
        resultSlices_def split: if_splits option.splits)

lemma setPhase_separated:
  "separated h (setPhase status result) = separated h status"
  "resultSeparated h (setPhase status result) result = resultSeparated h status result"
  by (simp_all add: separated_def resultSeparated_def statusSlices_def setPhase_fields)
     (simp_all add: setPhase_def split: option.splits)

lemma InstanceStatus_viewInstance:
  "InstanceStatus (viewInstance h instance) = viewStatus h (InstanceStatus instance)"
  by (simp add: viewInstance_def)

text \<open>
  On a separated instance and a Result apart from its spare capacity, \<^verbatim>\<open>UpdateStatus\<close>
  on the heap returns the error and the client that \<^verbatim>\<open>UpdateStatus\<close> on lists returns
  for what the instance and the Result show.
\<close>

lemma UpdateStatusH_refines:
  assumes "separated h (InstanceStatus instance)"
      and "resultSeparated h (InstanceStatus instance) result"
      and "UpdateStatusH clk c h instance result = (err, c', h')"
  shows "UpdateStatus clk c (viewInstance h instance) (viewResult h result) = (err, c')"
proof -
  let ?st = "InstanceStatus instance"
  have wfc: "\<forall>t \<in> set (sliceOf (resultReplacementsCreated result)). wfSlice h t"
    using assms(2) by (simp add: resultSeparated_def resultSlices_def)
  have created: "setReplacementsCreated (setPhase (viewStatus h ?st) (viewResult h result)) (viewResult h result)
      = map_sum id (viewStatus h) (setReplacementsCreatedH (setPhase ?st result) result)"
    using viewStatus_setReplacementsCreated [OF wfc, of "setPhase ?st result"]
    by (simp add: viewStatus_setPhase [where ?h0.0 = h])
  show ?thesis
  proof (cases "setReplacementsCreatedH (setPhase ?st result) result")
    case (Inl e)
    with assms(3) created show ?thesis
      by (simp add: UpdateStatusH_def UpdateStatus_def InstanceStatus_viewInstance)
  next
    case (Inr status1)
    from setReplacementsCreatedH_separated [OF _ _ Inr] assms(1,2)
    have sep1: "separated h status1" "resultSeparated h status1 result"
      and rc1: "ReplacementsCompleted status1 = ReplacementsCompleted ?st"
      by (simp_all add: setPhase_separated setPhase_fields)
    obtain h2 status2 where c2: "setReplacementsCompletedH h status1 result = (h2, status2)"
      by (cases "setReplacementsCompletedH h status1 result")
    from setReplacementsCompletedH_view [OF sep1 c2]
    have v2: "viewStatus h2 status2 = setReplacementsCompleted (viewStatus h status1) (viewResult h result)" .
    have inst: "viewStatus h2 ?st = viewStatus h ?st"
    proof (cases "ReplacementsCompleted ?st")
      case None
      with rc1 setReplacementsCompletedH_None [of status1 h result] c2 show ?thesis by simp
    next
      case (Some old)
      with rc1 have "ReplacementsCompleted status1 = Some old" by simp
      from setReplacementsCompletedH_keeps [OF this c2] have "keeps h old h2" .
      from separated_view [OF assms(1) Some this] show ?thesis .
    qed
    have vs1: "setReplacementsCreated (setPhase (viewStatus h ?st) (viewResult h result)) (viewResult h result)
        = Inr (viewStatus h status1)"
      using created Inr by simp
    have ts: "setCompletionTimestamp (viewStatus h2 status2) (viewResult h result)
        = map_sum id (viewStatus h2) (setCompletionTimestamp status2 result)"
      by (rule viewStatus_setCompletionTimestamp)
    show ?thesis
    proof (cases "setCompletionTimestamp status2 result")
      case (Inl e)
      with assms(3) Inr c2 ts v2 vs1 show ?thesis
        by (simp add: UpdateStatusH_def UpdateStatus_def InstanceStatus_viewInstance)
    next
      case s3: (Inr status3)
      have cc: "setCreatedCondition clk 0 (viewStatus h2 status3) (viewResult h result)
          = map_sum id (map_prod (viewStatus h2) id) (setCreatedCondition clk 0 status3 result)"
        by (rule viewStatus_setCreatedCondition)
      show ?thesis
      proof (cases "setCreatedCondition clk 0 status3 result")
        case (Inl e)
        with assms(3) Inr c2 ts v2 vs1 s3 cc show ?thesis
          by (simp add: UpdateStatusH_def UpdateStatus_def InstanceStatus_viewInstance)
      next
        case s4: (Inr p4)
        obtain status4 n4 where p4: "p4 = (status4, n4)" by (cases p4)
        have ic: "setInProgressCondition clk n4 (viewStatus h2 status4) (viewResult h result)
            = map_sum id (map_prod (viewStatus h2) id) (setInProgressCondition clk n4 status4 result)"
          by (rule viewStatus_setInProgressCondition)
        show ?thesis
        proof (cases "setInProgressCondition clk n4 status4 result")
          case (Inl e)
          with assms(3) Inr c2 ts v2 vs1 s3 cc s4 p4 ic show ?thesis
            by (simp add: UpdateStatusH_def UpdateStatus_def InstanceStatus_viewInstance)
        next
          case s5: (Inr p5)
          obtain status5 n5 where p5: "p5 = (status5, n5)" by (cases p5)
          have copy: "viewInstance h2 (instance\<lparr>InstanceStatus := status5\<rparr>)
              = (viewInstance h instance)\<lparr>InstanceStatus := viewStatus h2 status5\<rparr>"
            by (simp add: viewInstance_def)
          from assms(3) Inr c2 ts v2 vs1 s3 cc s4 p4 ic s5 p5 inst copy show ?thesis
            by (simp add: UpdateStatusH_def UpdateStatus_def InstanceStatus_viewInstance split: if_splits prod.splits option.splits)
        qed
      qed
    qed
  qed
qed

section \<open>Further properties of the merge of ReplacementsCompleted\<close>

text \<open>
  On lists, that is, for slices that do not share an array: when the Result supplies a
  \<^verbatim>\<open>ReplacementsCompleted\<close> list and the merge succeeds, the merged list holds the names
  of the persisted list and of the Result list, and the count is its length. A persisted
  list that is set is kept as the prefix, and what follows has no repeated name and no
  name of the persisted list.
\<close>

lemma mergedStatus_completed_merge:
  assumes "resultReplacementsCompleted result = Some new"
      and "mergedStatus clk status result = Inr status'"
  shows "\<exists>merged. ReplacementsCompleted status' = Some merged
           \<and> ReplacementsCompletedCount status' = int (length merged)
           \<and> set merged = set (items (ReplacementsCompleted status)) \<union> set new
           \<and> (case ReplacementsCompleted status of
                None \<Rightarrow> merged = new
              | Some old \<Rightarrow> take (length old) merged = old
                           \<and> distinct (drop (length old) merged)
                           \<and> set (drop (length old) merged) \<inter> set old = {}
                           \<and> (distinct old \<longrightarrow> distinct merged))"
proof (cases "ReplacementsCompleted status")
  case None
  with assms show ?thesis
    using mergedStatus_ReplacementsCompleted [OF assms(2)] setReplacementsCompleted_None [OF None assms(1)]
    by (simp add: items_def)
next
  case (Some old)
  obtain ext where ext: "appendIfMissingStr old new = old @ ext" "distinct ext"
      "set ext \<inter> set old = {}" "set ext \<subseteq> set new"
    using appendIfMissingStr_ext [of old new] by blast
  have "set (appendIfMissingStr old new) = set old \<union> set new"
    by (rule set_appendIfMissingStr)
  with ext Some show ?thesis
    using mergedStatus_ReplacementsCompleted [OF assms(2)] setReplacementsCompleted_Some [OF Some assms(1)]
    by (auto simp: items_def)
qed

lemma mergedStatus_completed_merge_example:
  "mergedStatus exampleClock
        (emptyStatus\<lparr>ReplacementsCompleted := Some [''m1'', ''w1''], ReplacementsCompletedCount := 2\<rparr>)
        (emptyResult\<lparr>resultReplacementsCompleted := Some [''m2'', ''w2'']\<rparr>)
     = Inr (emptyStatus\<lparr>ReplacementsCompleted := Some [''m1'', ''w1'', ''m2'', ''w2''],
                         ReplacementsCompletedCount := 4\<rparr>)"
  by (simp add: examples mergedStatus_def run)

text \<open>
  In the heap, with a Result slice over the spare capacity of the persisted slice: the
  persisted list is the second cell of an array of four names, with capacity three, and
  the Result is the whole array. The first append overwrites the third cell before the
  loop reads it: the request carries three names and the count 3, and the name \<^verbatim>\<open>c\<close>
  is lost; on lists the merge of the same contents has four names.
\<close>

lemma aliased_result_loses_a_name:
  "ReplacementsCompleted (InstanceStatus (viewInstance aliasedHeap aliasedInstance)) = Some [''b'']
   \<and> resultReplacementsCompleted (viewResult aliasedHeap aliasedResult) = Some [''a'', ''b'', ''c'', ''d'']
   \<and> map (\<lambda>obj. (ReplacementsCompleted (InstanceStatus obj), ReplacementsCompletedCount (InstanceStatus obj)))
        (calls (fst (snd (UpdateStatusH exampleClock acceptingClient aliasedHeap aliasedInstance aliasedResult))))
       = [(Some [''b'', ''a'', ''d''], 3)]
   \<and> map (\<lambda>obj. (ReplacementsCompleted (InstanceStatus obj), ReplacementsCompletedCount (InstanceStatus obj)))
        (calls (snd (UpdateStatus exampleClock acceptingClient (viewInstance aliasedHeap aliasedInstance)
                       (viewResult aliasedHeap aliasedResult))))
       = [(Some [''b'', ''a'', ''c'', ''d''], 4)]"
  by (simp add: aliasedHeap_def aliasedInstance_def aliasedResult_def examplesH runH examples run
        eval_nat_numeral)

text \<open>
  If the status of the instance is separated (its string slices are well-formed and none
  shows spare capacity of its \<^verbatim>\<open>ReplacementsCompleted\<close> slice), then after
  \<^verbatim>\<open>UpdateStatus\<close> returns, with or without an error, with or without an update request,
  the instance shows what it showed on entry. In the example the append does write into
  the array of the instance's \<^verbatim>\<open>ReplacementsCompleted\<close>, beyond its length.
\<close>

lemma UpdateStatusH_frame:
  assumes "separated h (InstanceStatus instance)"
      and "UpdateStatusH clk c h instance result = (err, c', h')"
  shows "viewInstance h' instance = viewInstance h instance"
proof -
  from UpdateStatusH_keeps [OF assms(2)] consider "h' = h"
    | old where "ReplacementsCompleted (InstanceStatus instance) = Some old" "keeps h old h'"
    by blast
  then show ?thesis
  proof cases
    case 1
    then show ?thesis by simp
  next
    case 2
    from separated_view [OF assms(1) 2] show ?thesis
      by (simp add: viewInstance_def)
  qed
qed

lemma UpdateStatusH_frame_example:
  "separated separateHeap (InstanceStatus separateInstance)
   \<and> fst (UpdateStatusH exampleClock acceptingClient separateHeap separateInstance resultX) = None
   \<and> map (ReplacementsCompleted \<circ> InstanceStatus)
        (calls (fst (snd (UpdateStatusH exampleClock acceptingClient separateHeap separateInstance resultX))))
       = [Some [''m1'', ''w1'', ''x'']]
   \<and> heapArrays (snd (snd (UpdateStatusH exampleClock acceptingClient separateHeap separateInstance resultX))) 2
       = [''m1'', ''w1'', ''x'', '''']
   \<and> viewInstance (snd (snd (UpdateStatusH exampleClock acceptingClient separateHeap separateInstance resultX)))
        separateInstance
       = viewInstance separateHeap separateInstance"
  by (simp add: examplesH runH examples run separated_def statusSlices_def wfSlice_def apart_def)

section \<open>The claims\<close>

text \<open>
  C1, as stated, at an instance whose \<^verbatim>\<open>ReplacementsCreated\<close> and
  \<^verbatim>\<open>CompletionTimestamp\<close> are both set and a Result that supplies both: the claim asks
  for the CompletionTimestamp error, the call returns the ReplacementsCreated error,
  since \<^verbatim>\<open>setReplacementsCreated\<close> runs first and its error ends the call.
\<close>

theorem C1_both_conflicts_counterexample:
  "CompletionTimestamp (InstanceStatus
       (withStatus (emptyStatus\<lparr>ReplacementsCreated := Some [''m1'', ''w1''], ReplacementsCreatedCount := 2,
                                CompletionTimestamp := Some 5\<rparr>))) \<noteq> None
   \<and> resultCompletionTimestamp
       (emptyResult\<lparr>resultReplacementsCreated := Some [''m1'', ''m2'', ''w1'', ''w2''],
                    resultCompletionTimestamp := Some 7\<rparr>) \<noteq> None
   \<and> fst (UpdateStatus exampleClock acceptingClient
        (withStatus (emptyStatus\<lparr>ReplacementsCreated := Some [''m1'', ''w1''], ReplacementsCreatedCount := 2,
                                 CompletionTimestamp := Some 5\<rparr>))
        (emptyResult\<lparr>resultReplacementsCreated := Some [''m1'', ''m2'', ''w1'', ''w2''],
                     resultCompletionTimestamp := Some 7\<rparr>))
      = Some ''cannot update ReplacementsCreated, field is immutable once set''
   \<and> fst (UpdateStatus exampleClock acceptingClient
        (withStatus (emptyStatus\<lparr>ReplacementsCreated := Some [''m1'', ''w1''], ReplacementsCreatedCount := 2,
                                 CompletionTimestamp := Some 5\<rparr>))
        (emptyResult\<lparr>resultReplacementsCreated := Some [''m1'', ''m2'', ''w1'', ''w2''],
                     resultCompletionTimestamp := Some 7\<rparr>))
      \<noteq> Some ''cannot update CompletionTimestamp, field is immutable once set''"
  by (simp add: examples UpdateStatus_def setPhase_def setReplacementsCreated_def)

text \<open>
  C1, amended. If the persisted \<^verbatim>\<open>ReplacementsCreated\<close> is set and the Result supplies
  one, \<^verbatim>\<open>UpdateStatus\<close> returns the ReplacementsCreated immutability error. If that
  conflict is absent, the persisted \<^verbatim>\<open>CompletionTimestamp\<close> is set and the Result
  supplies one, it returns the CompletionTimestamp immutability error. In both cases the
  client is returned as it was: no update request is issued and no stored object changes.
\<close>

theorem C1_immutable_once_set:
  "(ReplacementsCreated (InstanceStatus instance) \<noteq> None \<and> resultReplacementsCreated result \<noteq> None
      \<longrightarrow> UpdateStatus clk c instance result
            = (Some ''cannot update ReplacementsCreated, field is immutable once set'', c))
   \<and> (\<not> (ReplacementsCreated (InstanceStatus instance) \<noteq> None \<and> resultReplacementsCreated result \<noteq> None)
      \<and> CompletionTimestamp (InstanceStatus instance) \<noteq> None \<and> resultCompletionTimestamp result \<noteq> None
      \<longrightarrow> UpdateStatus clk c instance result
            = (Some ''cannot update CompletionTimestamp, field is immutable once set'', c))"
proof (intro conjI impI)
  assume "ReplacementsCreated (InstanceStatus instance) \<noteq> None \<and> resultReplacementsCreated result \<noteq> None"
  then have "setReplacementsCreated (setPhase (InstanceStatus instance) result) result
          = Inl ''cannot update ReplacementsCreated, field is immutable once set''"
    by (simp add: setReplacementsCreated_Inl setPhase_fields)
  then show "UpdateStatus clk c instance result
            = (Some ''cannot update ReplacementsCreated, field is immutable once set'', c)"
    by (simp add: UpdateStatus_def)
next
  assume a: "\<not> (ReplacementsCreated (InstanceStatus instance) \<noteq> None \<and> resultReplacementsCreated result \<noteq> None)
      \<and> CompletionTimestamp (InstanceStatus instance) \<noteq> None \<and> resultCompletionTimestamp result \<noteq> None"
  then have "\<not> (\<exists>e. setReplacementsCreated (setPhase (InstanceStatus instance) result) result = Inl e)"
    by (simp add: setReplacementsCreated_Inl setPhase_fields)
  then obtain s1 where s1: "setReplacementsCreated (setPhase (InstanceStatus instance) result) result = Inr s1"
    by (cases "setReplacementsCreated (setPhase (InstanceStatus instance) result) result") auto
  have "CompletionTimestamp (setReplacementsCompleted s1 result) = CompletionTimestamp (InstanceStatus instance)"
    using setReplacementsCreated_Inr(3) [OF s1]
    by (simp add: setReplacementsCompleted_fields setPhase_fields)
  with a have "setCompletionTimestamp (setReplacementsCompleted s1 result) result
          = Inl ''cannot update CompletionTimestamp, field is immutable once set''"
    by (simp add: setCompletionTimestamp_Inl)
  with s1 show "UpdateStatus clk c instance result
            = (Some ''cannot update CompletionTimestamp, field is immutable once set'', c)"
    by (simp add: UpdateStatus_def)
qed

theorem C1_immutable_once_set_witness:
  "UpdateStatus exampleClock acceptingClient
        (withStatus (emptyStatus\<lparr>ReplacementsCreated := Some [''m1'', ''w1''], ReplacementsCreatedCount := 2\<rparr>))
        (emptyResult\<lparr>resultReplacementsCreated := Some [''m1'', ''m2'', ''w1'', ''w2'']\<rparr>)
      = (Some ''cannot update ReplacementsCreated, field is immutable once set'', acceptingClient)
   \<and> UpdateStatus exampleClock acceptingClient
        (withStatus (emptyStatus\<lparr>CompletionTimestamp := Some 5\<rparr>))
        (emptyResult\<lparr>resultCompletionTimestamp := Some 7\<rparr>)
      = (Some ''cannot update CompletionTimestamp, field is immutable once set'', acceptingClient)"
  using C1_immutable_once_set
          [of "withStatus (emptyStatus\<lparr>ReplacementsCreated := Some [''m1'', ''w1''], ReplacementsCreatedCount := 2\<rparr>)"
              "emptyResult\<lparr>resultReplacementsCreated := Some [''m1'', ''m2'', ''w1'', ''w2'']\<rparr>"
              exampleClock acceptingClient]
        C1_immutable_once_set
          [of "withStatus (emptyStatus\<lparr>CompletionTimestamp := Some 5\<rparr>)"
              "emptyResult\<lparr>resultCompletionTimestamp := Some 7\<rparr>"
              exampleClock acceptingClient]
  by (simp add: examples)

text \<open>
  C2. \<^verbatim>\<open>shouldProcess\<close>: if another replacement of the list is InProgress, the result is
  \<open>False\<close> with the in-progress reason naming such a replacement, whatever the priorities;
  otherwise, if another replacement has a strictly greater priority, the result is
  \<open>False\<close> with the higher-priority reason naming such a replacement; otherwise the
  result is \<open>True\<close> with the empty reason. The candidate itself, when it is in the list,
  changes nothing.
\<close>

theorem C2_shouldProcess:
  "((\<exists>nr \<in> set replacements. ReplacementName nr \<noteq> ReplacementName candidate
        \<and> ReplacementPhase nr = ReplacementPhaseInProgress)
     \<longrightarrow> (\<exists>nr \<in> set replacements. ReplacementName nr \<noteq> ReplacementName candidate
            \<and> ReplacementPhase nr = ReplacementPhaseInProgress
            \<and> shouldProcess candidate replacements
                = (False, ''NodeReplacement \"'' @ ReplacementName nr @ ''\" is already in-progress'')))
   \<and> (\<not> (\<exists>nr \<in> set replacements. ReplacementName nr \<noteq> ReplacementName candidate
             \<and> ReplacementPhase nr = ReplacementPhaseInProgress)
      \<and> (\<exists>nr \<in> set replacements. ReplacementName nr \<noteq> ReplacementName candidate
             \<and> ReplacementPriority candidate < ReplacementPriority nr)
     \<longrightarrow> (\<exists>nr \<in> set replacements. ReplacementName nr \<noteq> ReplacementName candidate
            \<and> ReplacementPriority candidate < ReplacementPriority nr
            \<and> shouldProcess candidate replacements
                = (False, ''NodeReplacement \"'' @ ReplacementName nr @ ''\" has a higher priority'')))
   \<and> (\<not> (\<exists>nr \<in> set replacements. ReplacementName nr \<noteq> ReplacementName candidate
             \<and> ReplacementPhase nr = ReplacementPhaseInProgress)
      \<and> \<not> (\<exists>nr \<in> set replacements. ReplacementName nr \<noteq> ReplacementName candidate
             \<and> ReplacementPriority candidate < ReplacementPriority nr)
     \<longrightarrow> shouldProcess candidate replacements = (True, ''''))
   \<and> shouldProcess candidate (candidate # replacements) = shouldProcess candidate replacements"
proof (intro conjI impI)
  let ?others = "filter (\<lambda>nr. ReplacementName nr \<noteq> ReplacementName candidate) replacements"
  let ?busy = "\<lambda>nr. ReplacementPhase nr = ReplacementPhaseInProgress"
  let ?higher = "\<lambda>nr. ReplacementPriority candidate < ReplacementPriority nr"
  {
    assume "\<exists>nr \<in> set replacements. ReplacementName nr \<noteq> ReplacementName candidate \<and> ?busy nr"
    then have "find ?busy ?others \<noteq> None"
      by (auto simp: find_None_iff)
    then obtain nr where f: "find ?busy ?others = Some nr" by auto
    from find_Some_set [OF f] have "nr \<in> set replacements"
      "ReplacementName nr \<noteq> ReplacementName candidate" "?busy nr" by auto
    moreover from f have "shouldProcess candidate replacements
        = (False, ''NodeReplacement \"'' @ ReplacementName nr @ ''\" is already in-progress'')"
      by (simp add: shouldProcess_def)
    ultimately show "\<exists>nr \<in> set replacements. ReplacementName nr \<noteq> ReplacementName candidate
            \<and> ?busy nr
            \<and> shouldProcess candidate replacements
                = (False, ''NodeReplacement \"'' @ ReplacementName nr @ ''\" is already in-progress'')"
      by blast
  }
  {
    assume a: "\<not> (\<exists>nr \<in> set replacements. ReplacementName nr \<noteq> ReplacementName candidate \<and> ?busy nr)
      \<and> (\<exists>nr \<in> set replacements. ReplacementName nr \<noteq> ReplacementName candidate \<and> ?higher nr)"
    then have n: "find ?busy ?others = None"
      by (auto simp: find_None_iff)
    from a have "find ?higher ?others \<noteq> None"
      by (auto simp: find_None_iff)
    then obtain nr where f: "find ?higher ?others = Some nr" by auto
    from find_Some_set [OF f] have "nr \<in> set replacements"
      "ReplacementName nr \<noteq> ReplacementName candidate" "?higher nr" by auto
    moreover from f n have "shouldProcess candidate replacements
        = (False, ''NodeReplacement \"'' @ ReplacementName nr @ ''\" has a higher priority'')"
      by (simp add: shouldProcess_def)
    ultimately show "\<exists>nr \<in> set replacements. ReplacementName nr \<noteq> ReplacementName candidate
            \<and> ?higher nr
            \<and> shouldProcess candidate replacements
                = (False, ''NodeReplacement \"'' @ ReplacementName nr @ ''\" has a higher priority'')"
      by blast
  }
  {
    assume a: "\<not> (\<exists>nr \<in> set replacements. ReplacementName nr \<noteq> ReplacementName candidate \<and> ?busy nr)
      \<and> \<not> (\<exists>nr \<in> set replacements. ReplacementName nr \<noteq> ReplacementName candidate \<and> ?higher nr)"
    then have "find ?busy ?others = None" "find ?higher ?others = None"
      by (auto simp: find_None_iff)
    then show "shouldProcess candidate replacements = (True, '''')"
      by (simp add: shouldProcess_def)
  }
  show "shouldProcess candidate (candidate # replacements) = shouldProcess candidate replacements"
    by (simp add: shouldProcess_def)
qed

theorem C2_shouldProcess_witness:
  "shouldProcess exampleNodeReplacement [exampleNodeReplacement, highPriorityNR]
     = (False, ''NodeReplacement \"high-priority\" has a higher priority'')
   \<and> shouldProcess exampleNodeReplacement [exampleNodeReplacement, inProgressNR]
     = (False, ''NodeReplacement \"in-progress\" is already in-progress'')
   \<and> shouldProcess exampleNodeReplacement [exampleNodeReplacement] = (True, '''')
   \<and> shouldProcess exampleNodeReplacement [exampleNodeReplacement, highPriorityNR, inProgressNR]
     = (False, ''NodeReplacement \"in-progress\" is already in-progress'')
   \<and> shouldProcess highPriorityNR [exampleNodeReplacement, highPriorityNR] = (True, '''')
   \<and> shouldProcess inProgressNR [inProgressNR] = (True, '''')"
  using C2_shouldProcess [of "[exampleNodeReplacement, highPriorityNR]" exampleNodeReplacement]
        C2_shouldProcess [of "[exampleNodeReplacement, inProgressNR]" exampleNodeReplacement]
        C2_shouldProcess [of "[exampleNodeReplacement]" exampleNodeReplacement]
        C2_shouldProcess [of "[exampleNodeReplacement, highPriorityNR, inProgressNR]" exampleNodeReplacement]
        C2_shouldProcess [of "[exampleNodeReplacement, highPriorityNR]" highPriorityNR]
        C2_shouldProcess [of "[inProgressNR]" inProgressNR]
  by (simp add: exampleNodeReplacement_def highPriorityNR_def inProgressNR_def
        ReplacementPhaseInProgress_def shouldProcess_def)

text \<open>
  C3. The code at an instance whose \<^verbatim>\<open>ReplacementsCompleted\<close> is unset and a Result
  that lists the name \<^verbatim>\<open>m1\<close> twice: the call succeeds and its update request carries
  the list with the name twice and the count 2, where the merged list is to hold no name
  twice. The second branch of \<^verbatim>\<open>setReplacementsCompleted\<close> (lines 87 to 90) assigns the
  Result slice as it is; the first branch goes through \<^verbatim>\<open>appendIfMissingStr\<close>, which
  drops repeated names. The heap and the functions on lists agree on this input.
\<close>

theorem C3_unset_list_keeps_repeated_names:
  "ReplacementsCompleted (InstanceStatus (viewInstance repeatedHeap emptyInstanceH)) = None
   \<and> resultReplacementsCompleted (viewResult repeatedHeap repeatedResult) = Some [''m1'', ''m1'']
   \<and> fst (UpdateStatusH exampleClock acceptingClient repeatedHeap emptyInstanceH repeatedResult) = None
   \<and> calls (fst (snd (UpdateStatusH exampleClock acceptingClient repeatedHeap emptyInstanceH repeatedResult)))
       = [withStatus (emptyStatus\<lparr>ReplacementsCompleted := Some [''m1'', ''m1''],
                                  ReplacementsCompletedCount := 2\<rparr>)]
   \<and> calls (snd (UpdateStatus exampleClock acceptingClient exampleNodeRollout
                    (emptyResult\<lparr>resultReplacementsCompleted := Some [''m1'', ''m1'']\<rparr>)))
       = [withStatus (emptyStatus\<lparr>ReplacementsCompleted := Some [''m1'', ''m1''],
                                  ReplacementsCompletedCount := 2\<rparr>)]
   \<and> \<not> distinct [''m1'', ''m1'']"
  by (simp add: repeatedHeap_def repeatedResult_def emptyInstanceH_def examplesH runH examples run)

text \<open>
  C4. For a status with at most one condition per type, an entry \<open>current\<close> of it and
  a condition of the same type applied with \<^verbatim>\<open>setNodeRolloutCondition\<close>: with the same
  status and reason the whole status is returned unchanged; with the same status and
  another reason the entry is replaced by the new condition carrying the old
  \<^verbatim>\<open>LastTransitionTime\<close> (and its own, new \<^verbatim>\<open>LastUpdateTime\<close>); with another status the
  entry is replaced by the new condition with both of its timestamps.
\<close>

theorem C4_condition_update_rule:
  assumes "distinct (map Type (items (Conditions status)))"
      and "current \<in> set (items (Conditions status))"
      and "Type condition = Type current"
  shows "(Status condition = Status current \<and> Reason condition = Reason current \<longrightarrow>
            setNodeRolloutCondition status condition = status)
       \<and> (Status condition = Status current \<and> Reason condition \<noteq> Reason current \<longrightarrow>
            setNodeRolloutCondition status condition =
              status\<lparr>Conditions := Some (filter (\<lambda>c. Type c \<noteq> Type current) (items (Conditions status))
                           @ [condition\<lparr>LastTransitionTime := LastTransitionTime current\<rparr>])\<rparr>)
       \<and> (Status condition \<noteq> Status current \<longrightarrow>
            setNodeRolloutCondition status condition =
              status\<lparr>Conditions := Some (filter (\<lambda>c. Type c \<noteq> Type current) (items (Conditions status))
                           @ [condition])\<rparr>)"
proof -
  have "getNodeRolloutCondition status (Type condition) = Some current"
    using getNodeRolloutCondition_distinct [OF assms(1,2)] assms(3) by simp
  from setNodeRolloutCondition_found [OF this] assms(3) show ?thesis
    by auto
qed

theorem C4_condition_update_rule_witness:
  "distinct (map Type (items (Conditions (emptyStatus\<lparr>Conditions := Some [exampleCondition]\<rparr>))))
   \<and> exampleCondition \<in> set (items (Conditions (emptyStatus\<lparr>Conditions := Some [exampleCondition]\<rparr>)))
   \<and> setNodeRolloutCondition (emptyStatus\<lparr>Conditions := Some [exampleCondition]\<rparr>)
        (exampleCondition\<lparr>LastUpdateTime := 20, LastTransitionTime := 21, Message := ''new''\<rparr>)
       = emptyStatus\<lparr>Conditions := Some [exampleCondition]\<rparr>
   \<and> setNodeRolloutCondition (emptyStatus\<lparr>Conditions := Some [exampleCondition]\<rparr>)
        (exampleCondition\<lparr>LastUpdateTime := 20, LastTransitionTime := 21, Reason := ''Other''\<rparr>)
       = emptyStatus\<lparr>Conditions := Some [exampleCondition\<lparr>LastUpdateTime := 20, Reason := ''Other''\<rparr>]\<rparr>
   \<and> setNodeRolloutCondition (emptyStatus\<lparr>Conditions := Some [exampleCondition]\<rparr>)
        (exampleCondition\<lparr>LastUpdateTime := 20, LastTransitionTime := 21, Status := ''False''\<rparr>)
       = emptyStatus\<lparr>Conditions := Some [exampleCondition\<lparr>LastUpdateTime := 20, LastTransitionTime := 21,
                                                              Status := ''False''\<rparr>]\<rparr>"
  using C4_condition_update_rule
          [of "emptyStatus\<lparr>Conditions := Some [exampleCondition]\<rparr>" exampleCondition
              "exampleCondition\<lparr>LastUpdateTime := 20, LastTransitionTime := 21, Message := ''new''\<rparr>"]
        C4_condition_update_rule
          [of "emptyStatus\<lparr>Conditions := Some [exampleCondition]\<rparr>" exampleCondition
              "exampleCondition\<lparr>LastUpdateTime := 20, LastTransitionTime := 21, Reason := ''Other''\<rparr>"]
        C4_condition_update_rule
          [of "emptyStatus\<lparr>Conditions := Some [exampleCondition]\<rparr>" exampleCondition
              "exampleCondition\<lparr>LastUpdateTime := 20, LastTransitionTime := 21, Status := ''False''\<rparr>"]
  by (simp add: examples exampleCondition_def items_def)

text \<open>
  C5. \<^verbatim>\<open>processPods\<close> puts each pod bound to the node that is owned by a DaemonSet in
  the ignored list with the reason \<^verbatim>\<open>pod owned by a DaemonSet\<close>, and all other pods
  bound to the node, and only those, in the evictable list \<^verbatim>\<open>nodePods\<close>. In the
  witness, of \<^verbatim>\<open>pod-1\<close>, \<^verbatim>\<open>pod-2\<close> and \<^verbatim>\<open>pod-3\<close> on the node, \<^verbatim>\<open>pod-2\<close> is owned by a
  DaemonSet: the evictable list is \<^verbatim>\<open>pod-1\<close>, \<^verbatim>\<open>pod-3\<close> and the ignored list is
  \<^verbatim>\<open>pod-2\<close> with the reason.
\<close>

theorem C5_processPods:
  "fst (processPods pods nodeName)
     = map PodName (filter (\<lambda>pod. PodNodeName pod = nodeName \<and> \<not> ownedByDaemonSet pod) pods)
   \<and> snd (processPods pods nodeName)
     = map (\<lambda>pod. \<lparr>PodReasonName = PodName pod, PodReasonReason = ''pod owned by a DaemonSet''\<rparr>)
         (filter (\<lambda>pod. PodNodeName pod = nodeName \<and> ownedByDaemonSet pod) pods)
   \<and> (\<forall>pod \<in> set pods. PodNodeName pod = nodeName \<longrightarrow>
         (if ownedByDaemonSet pod
          then \<lparr>PodReasonName = PodName pod, PodReasonReason = ''pod owned by a DaemonSet''\<rparr>
                 \<in> set (snd (processPods pods nodeName))
          else PodName pod \<in> set (fst (processPods pods nodeName))))
   \<and> (\<forall>name \<in> set (fst (processPods pods nodeName)).
         \<exists>pod \<in> set pods. PodNodeName pod = nodeName \<and> \<not> ownedByDaemonSet pod
           \<and> name = PodName pod)
   \<and> (\<forall>ignored \<in> set (snd (processPods pods nodeName)).
         \<exists>pod \<in> set pods. PodNodeName pod = nodeName \<and> ownedByDaemonSet pod
           \<and> ignored = \<lparr>PodReasonName = PodName pod, PodReasonReason = ''pod owned by a DaemonSet''\<rparr>)"
  by (auto simp: processPods_def Let_def conj_commute)

theorem C5_processPods_witness:
  "processPods examplePods ''example-worker-1''
     = ([''pod-1'', ''pod-3''],
        [\<lparr>PodReasonName = ''pod-2'', PodReasonReason = ''pod owned by a DaemonSet''\<rparr>])
   \<and> ownedByDaemonSet (examplePods ! 1) \<and> \<not> ownedByDaemonSet (examplePods ! 0)
   \<and> \<not> ownedByDaemonSet (examplePods ! 2)"
  using C5_processPods [of examplePods "''example-worker-1''"]
  by (simp add: processPods_def examplePods_def newPod_def ownedByDaemonSet_def)

text \<open>
  C6, as stated, at a Result with \<^verbatim>\<open>ReplacementsCreatedError\<close> set, no reason, and a
  \<^verbatim>\<open>ReplacementsCreated\<close> list for an instance that already has one: the call returns
  the immutability error of \<^verbatim>\<open>setReplacementsCreated\<close>, which runs before the condition
  setters, not the error the claim names.
\<close>

theorem C6_earlier_error_counterexample:
  "resultReplacementsCreatedError
       (emptyResult\<lparr>resultReplacementsCreated := Some [''m1''],
                    resultReplacementsCreatedError := Some ''boom''\<rparr>) \<noteq> None
   \<and> resultReplacementsCreatedReason
       (emptyResult\<lparr>resultReplacementsCreated := Some [''m1''],
                    resultReplacementsCreatedError := Some ''boom''\<rparr>) = ''''
   \<and> UpdateStatus exampleClock acceptingClient
        (withStatus (emptyStatus\<lparr>ReplacementsCreated := Some [''m1''], ReplacementsCreatedCount := 1\<rparr>))
        (emptyResult\<lparr>resultReplacementsCreated := Some [''m1''],
                     resultReplacementsCreatedError := Some ''boom''\<rparr>)
      = (Some ''cannot update ReplacementsCreated, field is immutable once set'', acceptingClient)
   \<and> fst (UpdateStatus exampleClock acceptingClient
        (withStatus (emptyStatus\<lparr>ReplacementsCreated := Some [''m1''], ReplacementsCreatedCount := 1\<rparr>))
        (emptyResult\<lparr>resultReplacementsCreated := Some [''m1''],
                     resultReplacementsCreatedError := Some ''boom''\<rparr>))
      \<noteq> Some ''if ReplacementsCreatedError is set, ReplacementsCreatedReason must also be set''"
  by (simp add: examples UpdateStatus_def setPhase_def setReplacementsCreated_def)

text \<open>
  C6, amended. Provided neither immutability check fails: a Result with
  \<^verbatim>\<open>ReplacementsCreatedError\<close> set and an empty reason makes \<^verbatim>\<open>UpdateStatus\<close> return
  the error that the reason must be set; if that does not apply, a Result with
  \<^verbatim>\<open>ReplacementsInProgressError\<close> set and an empty reason makes it return the in-progress
  variant; in both cases the client is as it was. Whenever a setter is given a non-empty
  reason it applies, through \<^verbatim>\<open>setNodeRolloutCondition\<close>, a condition of its type with
  that reason, status True, or False when the matching error is set (for the in-progress
  condition also when the reason is \<^verbatim>\<open>ReplacementsCompleted\<close>), and the text of the error
  as message (empty without an error).
\<close>

theorem C6_error_needs_reason:
  "(\<not> (ReplacementsCreated (InstanceStatus instance) \<noteq> None \<and> resultReplacementsCreated result \<noteq> None)
      \<and> \<not> (CompletionTimestamp (InstanceStatus instance) \<noteq> None \<and> resultCompletionTimestamp result \<noteq> None)
      \<and> resultReplacementsCreatedError result \<noteq> None \<and> resultReplacementsCreatedReason result = ''''
      \<longrightarrow> UpdateStatus clk c instance result
            = (Some ''if ReplacementsCreatedError is set, ReplacementsCreatedReason must also be set'', c))
   \<and> (\<not> (ReplacementsCreated (InstanceStatus instance) \<noteq> None \<and> resultReplacementsCreated result \<noteq> None)
      \<and> \<not> (CompletionTimestamp (InstanceStatus instance) \<noteq> None \<and> resultCompletionTimestamp result \<noteq> None)
      \<and> \<not> (resultReplacementsCreatedError result \<noteq> None \<and> resultReplacementsCreatedReason result = '''')
      \<and> resultReplacementsInProgressError result \<noteq> None \<and> resultReplacementsInProgressReason result = ''''
      \<longrightarrow> UpdateStatus clk c instance result
            = (Some ''if ReplacementsInProgressError is set, ReplacementsInProgressReason must also be set'', c))
   \<and> (resultReplacementsCreatedReason result \<noteq> ''''
      \<longrightarrow> setCreatedCondition clk n status result
            = Inr (setNodeRolloutCondition status
                     \<lparr>Type = ReplacementsCreatedType,
                      Status = (if resultReplacementsCreatedError result \<noteq> None
                                then ConditionFalse else ConditionTrue),
                      LastUpdateTime = clk n, LastTransitionTime = clk (Suc n),
                      Reason = resultReplacementsCreatedReason result,
                      Message = (case resultReplacementsCreatedError result of
                                   None \<Rightarrow> '''' | Some err \<Rightarrow> err)\<rparr>,
                   Suc (Suc n)))
   \<and> (resultReplacementsInProgressReason result \<noteq> ''''
      \<longrightarrow> setInProgressCondition clk n status result
            = Inr (setNodeRolloutCondition status
                     \<lparr>Type = ReplacementsInProgressType,
                      Status = (if resultReplacementsInProgressError result \<noteq> None
                                   \<or> resultReplacementsInProgressReason result = ''ReplacementsCompleted''
                                then ConditionFalse else ConditionTrue),
                      LastUpdateTime = clk n, LastTransitionTime = clk (Suc n),
                      Reason = resultReplacementsInProgressReason result,
                      Message = (case resultReplacementsInProgressError result of
                                   None \<Rightarrow> '''' | Some err \<Rightarrow> err)\<rparr>,
                   Suc (Suc n)))"
proof (intro conjI impI)
  assume a: "\<not> (ReplacementsCreated (InstanceStatus instance) \<noteq> None \<and> resultReplacementsCreated result \<noteq> None)
      \<and> \<not> (CompletionTimestamp (InstanceStatus instance) \<noteq> None \<and> resultCompletionTimestamp result \<noteq> None)
      \<and> resultReplacementsCreatedError result \<noteq> None \<and> resultReplacementsCreatedReason result = ''''"
  then obtain s1 s3 where
    s: "setReplacementsCreated (setPhase (InstanceStatus instance) result) result = Inr s1"
       "setCompletionTimestamp (setReplacementsCompleted s1 result) result = Inr s3"
    using no_conflict_reaches_conditions [of "InstanceStatus instance" result] by blast
  from a have "setCreatedCondition clk 0 s3 result
      = Inl ''if ReplacementsCreatedError is set, ReplacementsCreatedReason must also be set''"
    by (simp add: setCreatedCondition_eq)
  with s show "UpdateStatus clk c instance result
      = (Some ''if ReplacementsCreatedError is set, ReplacementsCreatedReason must also be set'', c)"
    by (simp add: UpdateStatus_def)
next
  assume a: "\<not> (ReplacementsCreated (InstanceStatus instance) \<noteq> None \<and> resultReplacementsCreated result \<noteq> None)
      \<and> \<not> (CompletionTimestamp (InstanceStatus instance) \<noteq> None \<and> resultCompletionTimestamp result \<noteq> None)
      \<and> \<not> (resultReplacementsCreatedError result \<noteq> None \<and> resultReplacementsCreatedReason result = '''')
      \<and> resultReplacementsInProgressError result \<noteq> None \<and> resultReplacementsInProgressReason result = ''''"
  then obtain s1 s3 where
    s: "setReplacementsCreated (setPhase (InstanceStatus instance) result) result = Inr s1"
       "setCompletionTimestamp (setReplacementsCompleted s1 result) result = Inr s3"
    using no_conflict_reaches_conditions [of "InstanceStatus instance" result] by blast
  from a have "\<not> (\<exists>e. setCreatedCondition clk 0 s3 result = Inl e)"
    by (simp add: setCreatedCondition_eq)
  then obtain s4 n4 where s4: "setCreatedCondition clk 0 s3 result = Inr (s4, n4)"
    by (cases "setCreatedCondition clk 0 s3 result") auto
  from a have "setInProgressCondition clk n4 s4 result
      = Inl ''if ReplacementsInProgressError is set, ReplacementsInProgressReason must also be set''"
    by (simp add: setInProgressCondition_eq)
  with s s4 show "UpdateStatus clk c instance result
      = (Some ''if ReplacementsInProgressError is set, ReplacementsInProgressReason must also be set'', c)"
    by (simp add: UpdateStatus_def)
next
  assume "resultReplacementsCreatedReason result \<noteq> ''''"
  then show "setCreatedCondition clk n status result
            = Inr (setNodeRolloutCondition status
                     \<lparr>Type = ReplacementsCreatedType,
                      Status = (if resultReplacementsCreatedError result \<noteq> None
                                then ConditionFalse else ConditionTrue),
                      LastUpdateTime = clk n, LastTransitionTime = clk (Suc n),
                      Reason = resultReplacementsCreatedReason result,
                      Message = (case resultReplacementsCreatedError result of
                                   None \<Rightarrow> '''' | Some err \<Rightarrow> err)\<rparr>,
                   Suc (Suc n))"
    by (simp add: setCreatedCondition_eq)
next
  assume "resultReplacementsInProgressReason result \<noteq> ''''"
  then show "setInProgressCondition clk n status result
            = Inr (setNodeRolloutCondition status
                     \<lparr>Type = ReplacementsInProgressType,
                      Status = (if resultReplacementsInProgressError result \<noteq> None
                                   \<or> resultReplacementsInProgressReason result = ''ReplacementsCompleted''
                                then ConditionFalse else ConditionTrue),
                      LastUpdateTime = clk n, LastTransitionTime = clk (Suc n),
                      Reason = resultReplacementsInProgressReason result,
                      Message = (case resultReplacementsInProgressError result of
                                   None \<Rightarrow> '''' | Some err \<Rightarrow> err)\<rparr>,
                   Suc (Suc n))"
    by (simp add: setInProgressCondition_eq)
qed

theorem C6_error_needs_reason_witness:
  "UpdateStatus exampleClock acceptingClient exampleNodeRollout
        (emptyResult\<lparr>resultReplacementsCreatedError := Some ''boom''\<rparr>)
      = (Some ''if ReplacementsCreatedError is set, ReplacementsCreatedReason must also be set'',
         acceptingClient)
   \<and> UpdateStatus exampleClock acceptingClient exampleNodeRollout
        (emptyResult\<lparr>resultReplacementsInProgressError := Some ''boom''\<rparr>)
      = (Some ''if ReplacementsInProgressError is set, ReplacementsInProgressReason must also be set'',
         acceptingClient)
   \<and> setCreatedCondition exampleClock 0 emptyStatus
        (emptyResult\<lparr>resultReplacementsCreatedError := Some ''boom'',
                     resultReplacementsCreatedReason := ''Failed''\<rparr>)
      = Inr (emptyStatus\<lparr>Conditions := Some
               [\<lparr>Type = ReplacementsCreatedType, Status = ''False'', LastUpdateTime = 1000,
                 LastTransitionTime = 1001, Reason = ''Failed'', Message = ''boom''\<rparr>]\<rparr>, 2)
   \<and> setInProgressCondition exampleClock 0 emptyStatus
        (emptyResult\<lparr>resultReplacementsInProgressReason := ''ReplacementsCompleted''\<rparr>)
      = Inr (emptyStatus\<lparr>Conditions := Some
               [\<lparr>Type = ReplacementsInProgressType, Status = ''False'', LastUpdateTime = 1000,
                 LastTransitionTime = 1001, Reason = ''ReplacementsCompleted'', Message = ''''\<rparr>]\<rparr>, 2)
   \<and> setInProgressCondition exampleClock 0 emptyStatus
        (emptyResult\<lparr>resultReplacementsInProgressReason := ''Draining''\<rparr>)
      = Inr (emptyStatus\<lparr>Conditions := Some
               [\<lparr>Type = ReplacementsInProgressType, Status = ''True'', LastUpdateTime = 1000,
                 LastTransitionTime = 1001, Reason = ''Draining'', Message = ''''\<rparr>]\<rparr>, 2)"
  using C6_error_needs_reason
          [of exampleNodeRollout "emptyResult\<lparr>resultReplacementsCreatedError := Some ''boom''\<rparr>"
              exampleClock acceptingClient 0 emptyStatus]
        C6_error_needs_reason
          [of exampleNodeRollout "emptyResult\<lparr>resultReplacementsInProgressError := Some ''boom''\<rparr>"
              exampleClock acceptingClient 0 emptyStatus]
        C6_error_needs_reason
          [of exampleNodeRollout
              "emptyResult\<lparr>resultReplacementsCreatedError := Some ''boom'',
                     resultReplacementsCreatedReason := ''Failed''\<rparr>"
              exampleClock acceptingClient 0 emptyStatus]
        C6_error_needs_reason
          [of exampleNodeRollout
              "emptyResult\<lparr>resultReplacementsInProgressReason := ''ReplacementsCompleted''\<rparr>"
              exampleClock acceptingClient 0 emptyStatus]
        C6_error_needs_reason
          [of exampleNodeRollout
              "emptyResult\<lparr>resultReplacementsInProgressReason := ''Draining''\<rparr>"
              exampleClock acceptingClient 0 emptyStatus]
  by (simp add: examples run)

text \<open>
  C7. When the merge fails, \<^verbatim>\<open>UpdateStatus\<close> returns the error and the client is as
  it was. When it succeeds, an update request is issued if and only if the merged status
  differs from the status of the instance; the request carries the instance with the
  merged status; if the store rejects it with \<open>err\<close>, the call returns
  \<^verbatim>\<open>error updating status: \<close> followed by \<open>err\<close>, and \<^verbatim>\<open>nil\<close> if the store accepts it;
  when nothing has changed the call returns \<^verbatim>\<open>nil\<close> and the client is as it was.
\<close>

theorem C7_write_iff_changed:
  "(case mergedStatus clk (InstanceStatus instance) result of
      Inl err \<Rightarrow> UpdateStatus clk c instance result = (Some err, c)
    | Inr status \<Rightarrow>
        (calls (snd (UpdateStatus clk c instance result)) \<noteq> calls c) = (status \<noteq> InstanceStatus instance)
        \<and> (status = InstanceStatus instance \<longrightarrow> UpdateStatus clk c instance result = (None, c))
        \<and> (status \<noteq> InstanceStatus instance \<longrightarrow>
              calls (snd (UpdateStatus clk c instance result))
                = calls c @ [instance\<lparr>InstanceStatus := status\<rparr>]
              \<and> fst (UpdateStatus clk c instance result)
                = (case reject c (instance\<lparr>InstanceStatus := status\<rparr>) of
                     None \<Rightarrow> None
                   | Some err \<Rightarrow> Some (''error updating status: '' @ err))))"
  by (simp add: UpdateStatus_merged Update_def split: sum.splits option.splits)

theorem C7_write_iff_changed_witness:
  "UpdateStatus exampleClock rejectingClient exampleNodeRollout emptyResult = (None, rejectingClient)
   \<and> calls (snd (UpdateStatus exampleClock rejectingClient exampleNodeRollout
                    (emptyResult\<lparr>resultPhase := Some ''InProgress''\<rparr>)))
       = [withStatus (emptyStatus\<lparr>Phase := ''InProgress''\<rparr>)]
   \<and> fst (UpdateStatus exampleClock rejectingClient exampleNodeRollout
            (emptyResult\<lparr>resultPhase := Some ''InProgress''\<rparr>))
       = Some ''error updating status: conflict''
   \<and> UpdateStatus exampleClock acceptingClient exampleNodeRollout
        (emptyResult\<lparr>resultReplacementsCreatedError := Some ''boom''\<rparr>)
       = (Some ''if ReplacementsCreatedError is set, ReplacementsCreatedReason must also be set'',
          acceptingClient)"
  using C7_write_iff_changed [of exampleClock rejectingClient exampleNodeRollout emptyResult]
        C7_write_iff_changed [of exampleClock rejectingClient exampleNodeRollout
                                "emptyResult\<lparr>resultPhase := Some ''InProgress''\<rparr>"]
        C7_write_iff_changed [of exampleClock acceptingClient exampleNodeRollout
                                "emptyResult\<lparr>resultReplacementsCreatedError := Some ''boom''\<rparr>"]
  by (simp add: examples mergedStatus_def run)

text \<open>
  C8. If the persisted conditions hold at most one entry per type, so do the conditions
  of every status the merge of \<^verbatim>\<open>UpdateStatus\<close> produces; and after
  \<^verbatim>\<open>setNodeRolloutCondition\<close> has applied a condition, exactly one entry of its type is
  present.
\<close>

theorem C8_one_entry_per_type:
  assumes "distinct (map Type (items (Conditions status)))"
  shows "(\<forall>status'. mergedStatus clk status result = Inr status'
            \<longrightarrow> distinct (map Type (items (Conditions status'))))
       \<and> length (filter (\<lambda>c. Type c = Type condition)
                   (items (Conditions (setNodeRolloutCondition status condition)))) = 1"
  using mergedStatus_distinct [OF assms] setNodeRolloutCondition_one [OF assms] by blast

theorem C8_one_entry_per_type_witness:
  "distinct (map Type (items (Conditions (emptyStatus\<lparr>Conditions := Some [exampleCondition]\<rparr>))))
   \<and> mergedStatus exampleClock (emptyStatus\<lparr>Conditions := Some [exampleCondition]\<rparr>)
        (emptyResult\<lparr>resultReplacementsCreatedReason := ''Failed'',
                     resultReplacementsCreatedError := Some ''boom'',
                     resultReplacementsInProgressReason := ''Draining''\<rparr>)
       = Inr (emptyStatus\<lparr>Conditions := Some
               [\<lparr>Type = ReplacementsCreatedType, Status = ''False'', LastUpdateTime = 1000,
                 LastTransitionTime = 1001, Reason = ''Failed'', Message = ''boom''\<rparr>,
                \<lparr>Type = ReplacementsInProgressType, Status = ''True'', LastUpdateTime = 1002,
                 LastTransitionTime = 1003, Reason = ''Draining'', Message = ''''\<rparr>]\<rparr>)
   \<and> length (filter (\<lambda>c. Type c = ReplacementsCreatedType)
        (items (Conditions (setNodeRolloutCondition (emptyStatus\<lparr>Conditions := Some [exampleCondition]\<rparr>)
                              (exampleCondition\<lparr>Status := ''False''\<rparr>))))) = 1"
  using C8_one_entry_per_type
          [of "emptyStatus\<lparr>Conditions := Some [exampleCondition]\<rparr>" exampleClock
              "emptyResult\<lparr>resultReplacementsCreatedReason := ''Failed'',
                     resultReplacementsCreatedError := Some ''boom'',
                     resultReplacementsInProgressReason := ''Draining''\<rparr>"
              "exampleCondition\<lparr>Status := ''False''\<rparr>"]
  by (simp add: examples exampleCondition_def mergedStatus_def run)

text \<open>
  C9. The code at an instance whose \<^verbatim>\<open>ReplacementsCreated\<close> shows four cells of an array
  and whose \<^verbatim>\<open>ReplacementsCompleted\<close> shows the first two of the same array, with capacity
  four, and a Result with the completed name \<^verbatim>\<open>x\<close>: the instance is to show after the
  call what it showed on entry, and its \<^verbatim>\<open>ReplacementsCreated\<close> shows \<^verbatim>\<open>x\<close> where it
  showed \<^verbatim>\<open>m2\<close>. The local \<^verbatim>\<open>status\<close> of line 19 is a copy of the struct that shares
  the arrays of the instance, and the \<^verbatim>\<open>append\<close> of line 216 writes into the third cell.
\<close>

theorem C9_shallow_copy_mutates_instance:
  "ReplacementsCreated (InstanceStatus (viewInstance sharedHeap overlappingInstance))
     = Some [''m1'', ''w1'', ''m2'', ''w2'']
   \<and> ReplacementsCreated (InstanceStatus
        (viewInstance (snd (snd (UpdateStatusH exampleClock acceptingClient sharedHeap
                                   overlappingInstance resultX))) overlappingInstance))
     = Some [''m1'', ''w1'', ''x'', ''w2'']"
  by (simp add: examplesH runH examples run)

text \<open>
  C10. An assigned but empty \<^verbatim>\<open>ReplacementsCreated\<close> counts as set: when the instance
  carries the empty, non-nil list and the Result supplies any value for the field (empty
  or not), \<^verbatim>\<open>UpdateStatus\<close> returns the immutability error and leaves the client as it
  was. The test of line 67 is on \<^verbatim>\<open>nil\<close>, not on the length.
\<close>

theorem C10_empty_created_is_set:
  assumes "ReplacementsCreated (InstanceStatus instance) = Some []"
      and "resultReplacementsCreated result = Some created"
  shows "UpdateStatus clk c instance result =
           (Some ''cannot update ReplacementsCreated, field is immutable once set'', c)"
proof -
  have "setReplacementsCreated (setPhase (InstanceStatus instance) result) result
          = Inl ''cannot update ReplacementsCreated, field is immutable once set''"
    using assms by (simp add: setReplacementsCreated_Inl setPhase_fields)
  then show ?thesis
    by (simp add: UpdateStatus_def)
qed

theorem C10_empty_created_is_set_witness:
  "ReplacementsCreated (InstanceStatus (withStatus (emptyStatus\<lparr>ReplacementsCreated := Some []\<rparr>))) = Some []
   \<and> resultReplacementsCreated (emptyResult\<lparr>resultReplacementsCreated := Some []\<rparr>) = Some []
   \<and> UpdateStatus exampleClock acceptingClient
        (withStatus (emptyStatus\<lparr>ReplacementsCreated := Some []\<rparr>))
        (emptyResult\<lparr>resultReplacementsCreated := Some []\<rparr>)
      = (Some ''cannot update ReplacementsCreated, field is immutable once set'', acceptingClient)"
  using C10_empty_created_is_set
          [of "withStatus (emptyStatus\<lparr>ReplacementsCreated := Some []\<rparr>)"
              "emptyResult\<lparr>resultReplacementsCreated := Some []\<rparr>" "[]"
              exampleClock acceptingClient]
  by (simp add: examples)

end
